theory Spec2Isabelle
  imports Complex_Main
begin

section \<open>Data model\<close>

text \<open>
  The grid-search command line program \<^verbatim>\<open>GenSVMgrid.c\<close>. The structures \<^verbatim>\<open>GenGrid\<close>,
  \<^verbatim>\<open>GenData\<close>, \<^verbatim>\<open>GenTask\<close>, \<^verbatim>\<open>GenQueue\<close> and \<^verbatim>\<open>GenModel\<close> are declared in headers;
  the records below carry the fields that \<^verbatim>\<open>GenSVMgrid.c\<close> reads or writes. A C \<^verbatim>\<open>double\<close> is
  modelled as a real number: the program only stores, copies and compares these values, and
  comparison of doubles agrees with the order of the reals on every value other than NaN.
  C integers are modelled as \<^typ>\<open>int\<close>; the one narrowing conversion of the file
  (\<^verbatim>\<open>long\<close> to \<^verbatim>\<open>int\<close>, for the weight indices) is written out.
\<close>

datatype KernelType = K_LINEAR | K_POLY | K_RBF | K_SIGMOID

datatype TrainType = CV | TT

record GenGrid =
  traintype :: TrainType
  kerneltype :: KernelType
  folds :: int
  repeats :: int
  percentile :: real
  Np :: nat
  Nl :: nat
  Nk :: nat
  Ne :: nat
  Nw :: nat
  Ng :: nat
  Nc :: nat
  Nd :: nat
  ps :: "real list"
  lambdas :: "real list"
  kappas :: "real list"
  epsilons :: "real list"
  weight_idxs :: "int list"
  gammas :: "real list"
  coefs :: "real list"
  degrees :: "real list"
  train_data_file :: "string option"
  test_data_file :: "string option"

text \<open>
  A pointer field is \<open>NULL\<close>, points to a live object, or dangles after the object it pointed
  to has been freed.
\<close>

datatype 'a ptr = NULL | Ptr 'a | Dangling

text \<open>
  \<^verbatim>\<open>struct GenData\<close>: the dense matrix \<^verbatim>\<open>Z\<close>, the matrix \<^verbatim>\<open>RAW\<close>, the sparse matrix
  \<^verbatim>\<open>spZ\<close>, the label vector \<^verbatim>\<open>y\<close> (nullable) and the sample count \<^verbatim>\<open>n\<close>. The last two are
  named \<open>data_y\<close> and \<open>data_n\<close> here. The matrix types are parameters.
\<close>

record ('d, 's) GenData =
  Z :: "'d ptr"
  RAW :: "'d ptr"
  spZ :: "'s ptr"
  data_y :: "int list option"
  data_n :: nat

record GenTask =
  ID :: int
  performance :: real

record GenModel =
  model_kerneltype :: KernelType

text \<open>
  \<^verbatim>\<open>struct GenQueue\<close>: the array \<^verbatim>\<open>tasks\<close> of \<^verbatim>\<open>N\<close> tasks; a list, whose length is \<^verbatim>\<open>N\<close>.
\<close>

record 't GenQueue =
  tasks :: "'t list"

definition N :: "('t, 'q) GenQueue_scheme \<Rightarrow> nat" where
  "N q = length (tasks q)"

section \<open>Output streams and process termination\<close>

datatype FILE = STDOUT | STDERR

text \<open>
  Every text the program writes, by the call that writes it; arguments are the values
  substituted into the format string.
\<close>

datatype message =
    Help_Text "string list"
  | Unknown_Option char
  | Unknown_Kernel string
  | Grid_Open_Error string
  | Single_Value_Field string
  | Gamma_Ignored
  | Coef_Ignored
  | Degree_Ignored
  | No_Parameters string
  | Reading_Grid_File
  | Reading_Data "string option"
  | Labels_Not_Contiguous
  | Sparse_Nonlinear_Warning
  | Creating_Queue
  | Starting_Training
  | Training_Finished
  | Predictive_Performance real
  | Prediction_Written "string option"
  | Predicted_Label int
  | Newline
  | Done

text \<open>
  The global streams \<^verbatim>\<open>GENSVM_OUTPUT_FILE\<close> and \<^verbatim>\<open>GENSVM_ERROR_FILE\<close> (\<open>None\<close> is the null
  pointer), everything written so far, in order, with the stream it went to, and the
  prediction files written so far (file name and labels).
\<close>

record world =
  GENSVM_OUTPUT_FILE :: "FILE option"
  GENSVM_ERROR_FILE :: "FILE option"
  written :: "(FILE \<times> message) list"
  prediction_files :: "(string option \<times> int list) list"

definition fprintf :: "FILE \<Rightarrow> message \<Rightarrow> world \<Rightarrow> world" where
  "fprintf f msg w = w\<lparr>written := written w @ [(f, msg)]\<rparr>"

definition printf :: "message \<Rightarrow> world \<Rightarrow> world" where
  "printf msg w = fprintf STDOUT msg w"

text \<open>
  Modelled from the spec: the functions \<^verbatim>\<open>note\<close> and \<^verbatim>\<open>err\<close> are not part of the given
  sources. Diagnostics are suppressible by the global quiet mode: \<^verbatim>\<open>note\<close> writes to
  \<^verbatim>\<open>GENSVM_OUTPUT_FILE\<close> and \<^verbatim>\<open>err\<close> to \<^verbatim>\<open>GENSVM_ERROR_FILE\<close>, and nothing is written when
  that stream is the null pointer.
\<close>

definition "note" :: "message \<Rightarrow> world \<Rightarrow> world" where
  "note msg w = (case GENSVM_OUTPUT_FILE w of None \<Rightarrow> w | Some f \<Rightarrow> fprintf f msg w)"

definition err :: "message \<Rightarrow> world \<Rightarrow> world" where
  "err msg w = (case GENSVM_ERROR_FILE w of None \<Rightarrow> w | Some f \<Rightarrow> fprintf f msg w)"

definition EXIT_FAILURE :: int where
  "EXIT_FAILURE = 1"

text \<open>
  A function either calls \<^verbatim>\<open>exit\<close> with a status, which ends the process, or returns a
  value; both leave a world behind.
\<close>

datatype 'a result = Exit int world | Ok 'a world

definition exit_with_help :: "string list \<Rightarrow> world \<Rightarrow> 'a result" where
  "exit_with_help argv w = Exit EXIT_FAILURE (printf (Help_Text argv) w)"

section \<open>String helpers\<close>

text \<open>
  Modelled from the spec: \<^verbatim>\<open>str_startswith\<close> and \<^verbatim>\<open>str_endswith\<close> are not part of the given
  sources. A line is recognised by its prefix, and the kernel line by the literal token that
  ends it.
\<close>

definition str_startswith :: "string \<Rightarrow> string \<Rightarrow> bool" where
  "str_startswith str pre = (length pre \<le> length str \<and> take (length pre) str = pre)"

definition str_endswith :: "string \<Rightarrow> string \<Rightarrow> bool" where
  "str_endswith str suf =
     (length suf \<le> length str \<and> drop (length str - length suf) str = suf)"

text \<open>The character \<^verbatim>\<open>s[k]\<close> of a C string: the terminating zero at its end.\<close>

definition char_at :: "string \<Rightarrow> nat \<Rightarrow> char" where
  "char_at s k = (if k < length s then s ! k else CHR 0x00)"

definition newline :: string where
  "newline = [CHR 0x0A]"

definition is_space :: "char \<Rightarrow> bool" where
  "is_space c = (c \<in> set [CHR 0x20, CHR 0x09, CHR 0x0A, CHR 0x0B, CHR 0x0C, CHR 0x0D])"

text \<open>
  \<^verbatim>\<open>sscanf(buffer, "train: %s\n", name)\<close> on a buffer that starts with the key: the white space
  after the key is skipped and the characters up to the next white space are stored. With
  no such character nothing is converted and the destination keeps its contents.
\<close>

definition sscanf_word :: "nat \<Rightarrow> string \<Rightarrow> string \<Rightarrow> string" where
  "sscanf_word key_length buffer dest =
     (let word = takeWhile (\<lambda>c. \<not> is_space c) (dropWhile is_space (drop key_length buffer))
      in if word = [] then dest else word)"

section \<open>Command line\<close>

text \<open>
  \<^verbatim>\<open>parse_command_line\<close> returns the seed and stores the name of the grid file and the
  name of the prediction output file (\<open>None\<close> is the null pointer) through its arguments:
  the three together are its result here.
\<close>

type_synonym cmdline = "int \<times> string \<times> string option"

text \<open>
  The loop of \<^verbatim>\<open>parse_command_line\<close> over \<^verbatim>\<open>argv[i..]\<close>. An option that takes a value
  (\<^verbatim>\<open>-o\<close>, \<^verbatim>\<open>-z\<close>) consumes two arguments; \<^verbatim>\<open>-q\<close> and \<^verbatim>\<open>-x\<close> step back and consume one, but
  only after the test \<^verbatim>\<open>++i >= argc\<close>, so also they need a following argument.
\<close>

fun parse_args ::
  "(string \<Rightarrow> int) \<Rightarrow> string list \<Rightarrow> string list \<Rightarrow> int \<Rightarrow> string option \<Rightarrow> world
     \<Rightarrow> cmdline result" where
  "parse_args atoi argv [] sd po w = exit_with_help argv w"
| "parse_args atoi argv [a] sd po w =
     (if char_at a 0 \<noteq> CHR ''-''
      then Ok (sd, a, po) w
      else exit_with_help argv w)"
| "parse_args atoi argv (a # b # rest) sd po w =
     (if char_at a 0 \<noteq> CHR ''-''
      then Ok (sd, a, po) w
      else if char_at a 1 = CHR ''o'' then parse_args atoi argv rest sd (Some b) w
      else if char_at a 1 = CHR ''q''
        then parse_args atoi argv (b # rest) sd po
               (w\<lparr>GENSVM_OUTPUT_FILE := None, GENSVM_ERROR_FILE := None\<rparr>)
      else if char_at a 1 = CHR ''x'' then parse_args atoi argv (b # rest) sd po w
      else if char_at a 1 = CHR ''z'' then parse_args atoi argv rest (atoi b) po w
      else exit_with_help argv (fprintf STDERR (Unknown_Option (char_at a 1)) w))"

text \<open>
  \<^verbatim>\<open>parse_command_line\<close>; \<open>now\<close> is the value of \<^verbatim>\<open>time(NULL)\<close> and \<open>atoi\<close> the C library
  function.
\<close>

definition parse_command_line ::
  "(string \<Rightarrow> int) \<Rightarrow> int \<Rightarrow> string list \<Rightarrow> world \<Rightarrow> cmdline result" where
  "parse_command_line atoi now argv w =
     parse_args atoi argv (drop 1 argv) now None
       (w\<lparr>GENSVM_OUTPUT_FILE := Some STDOUT, GENSVM_ERROR_FILE := Some STDERR\<rparr>)"

section \<open>Grid file\<close>

definition parse_kernel_str :: "string \<Rightarrow> world \<Rightarrow> KernelType result" where
  "parse_kernel_str kernel_line w =
     (if str_endswith kernel_line (''LINEAR'' @ newline) then Ok K_LINEAR w
      else if str_endswith kernel_line (''POLY'' @ newline) then Ok K_POLY w
      else if str_endswith kernel_line (''RBF'' @ newline) then Ok K_RBF w
      else if str_endswith kernel_line (''SIGMOID'' @ newline) then Ok K_SIGMOID w
      else Exit EXIT_FAILURE (fprintf STDERR (Unknown_Kernel kernel_line) w))"

text \<open>
  The narrowing conversion of \<^verbatim>\<open>grid->weight_idxs[i] = lparams[i]\<close>, from \<^verbatim>\<open>long\<close> to a 32-bit
  \<^verbatim>\<open>int\<close>: the identity on the range of \<^verbatim>\<open>int\<close>, wrap-around outside.
\<close>

definition long_to_int :: "int \<Rightarrow> int" where
  "long_to_int v = (v + 2 ^ 31) mod 2 ^ 32 - 2 ^ 31"

text \<open>
  The scratch arrays \<^verbatim>\<open>params\<close> and \<^verbatim>\<open>lparams\<close> are zeroed before each line, so the entry
  at index 0 is the first value parsed from the line, or zero when there is none.
\<close>

definition first_or_zero :: "('a::zero) list \<Rightarrow> 'a" where
  "first_or_zero vals = (case vals of [] \<Rightarrow> 0 | v # _ \<Rightarrow> v)"

text \<open>
  The state of the loop in \<^verbatim>\<open>read_grid_from_file\<close>: the grid and the two local file name
  buffers, which keep their contents from one line to the next.
\<close>

record grid_reader =
  rd_grid :: GenGrid
  train_filename :: string
  test_filename :: string

definition extra_values_warning :: "string \<Rightarrow> nat \<Rightarrow> world \<Rightarrow> world" where
  "extra_values_warning field nr w =
     (if nr > 1 then fprintf STDERR (Single_Value_Field field) w else w)"

text \<open>
  One iteration of the loop, for the line \<open>buffer\<close> that \<^verbatim>\<open>fgets\<close> has read. The tokenisers
  \<^verbatim>\<open>all_doubles_str\<close> and \<^verbatim>\<open>all_longs_str\<close> are not part of the given sources and are
  parameters: applied to the buffer and the offset behind the key they give the values
  they store at the front of the scratch array, in order; the number \<^verbatim>\<open>nr\<close> they return
  is the length of that list.
\<close>

definition grid_line ::
  "(string \<Rightarrow> nat \<Rightarrow> real list) \<Rightarrow> (string \<Rightarrow> nat \<Rightarrow> int list) \<Rightarrow> string
     \<Rightarrow> grid_reader \<Rightarrow> world \<Rightarrow> grid_reader result" where
  "grid_line all_doubles_str all_longs_str buffer st w =
     (let g = rd_grid st in
      if str_startswith buffer ''train:'' then
        (let name = sscanf_word 6 buffer (train_filename st)
         in Ok (st\<lparr>rd_grid := g\<lparr>train_data_file := Some name\<rparr>, train_filename := name\<rparr>) w)
      else if str_startswith buffer ''test:'' then
        (let name = sscanf_word 5 buffer (test_filename st)
         in Ok (st\<lparr>rd_grid := g\<lparr>test_data_file := Some name\<rparr>, test_filename := name\<rparr>) w)
      else if str_startswith buffer ''p:'' then
        (let params = all_doubles_str buffer 2
         in Ok (st\<lparr>rd_grid := g\<lparr>ps := params, Np := length params\<rparr>\<rparr>) w)
      else if str_startswith buffer ''lambda:'' then
        (let params = all_doubles_str buffer 7
         in Ok (st\<lparr>rd_grid := g\<lparr>lambdas := params, Nl := length params\<rparr>\<rparr>) w)
      else if str_startswith buffer ''kappa:'' then
        (let params = all_doubles_str buffer 6
         in Ok (st\<lparr>rd_grid := g\<lparr>kappas := params, Nk := length params\<rparr>\<rparr>) w)
      else if str_startswith buffer ''epsilon:'' then
        (let params = all_doubles_str buffer 8
         in Ok (st\<lparr>rd_grid := g\<lparr>epsilons := params, Ne := length params\<rparr>\<rparr>) w)
      else if str_startswith buffer ''weight:'' then
        (let lparams = all_longs_str buffer 7
         in Ok (st\<lparr>rd_grid := g\<lparr>weight_idxs := map long_to_int lparams,
                                Nw := length lparams\<rparr>\<rparr>) w)
      else if str_startswith buffer ''folds:'' then
        (let lparams = all_longs_str buffer 6
         in Ok (st\<lparr>rd_grid := g\<lparr>folds := first_or_zero lparams\<rparr>\<rparr>)
               (extra_values_warning ''folds'' (length lparams) w))
      else if str_startswith buffer ''repeats:'' then
        (let lparams = all_longs_str buffer 8
         in Ok (st\<lparr>rd_grid := g\<lparr>repeats := first_or_zero lparams\<rparr>\<rparr>)
               (extra_values_warning ''repeats'' (length lparams) w))
      else if str_startswith buffer ''percentile:'' then
        (let params = all_doubles_str buffer 11
         in Ok (st\<lparr>rd_grid := g\<lparr>percentile := first_or_zero params\<rparr>\<rparr>)
               (extra_values_warning ''percentile'' (length params) w))
      else if str_startswith buffer ''kernel:'' then
        (case parse_kernel_str buffer w of
           Exit status w' \<Rightarrow> Exit status w'
         | Ok k w' \<Rightarrow> Ok (st\<lparr>rd_grid := g\<lparr>kerneltype := k\<rparr>\<rparr>) w')
      else if str_startswith buffer ''gamma:'' then
        (let params = all_doubles_str buffer 6
         in if kerneltype g = K_LINEAR
            then Ok (st\<lparr>rd_grid := g\<lparr>Ng := 0\<rparr>\<rparr>) (fprintf STDERR Gamma_Ignored w)
            else Ok (st\<lparr>rd_grid := g\<lparr>gammas := params, Ng := length params\<rparr>\<rparr>) w)
      else if str_startswith buffer ''coef:'' then
        (let params = all_doubles_str buffer 5
         in if kerneltype g = K_LINEAR \<or> kerneltype g = K_RBF
            then Ok (st\<lparr>rd_grid := g\<lparr>Nc := 0\<rparr>\<rparr>) (fprintf STDERR Coef_Ignored w)
            else Ok (st\<lparr>rd_grid := g\<lparr>coefs := params, Nc := length params\<rparr>\<rparr>) w)
      else if str_startswith buffer ''degree:'' then
        (let params = all_doubles_str buffer 7
         in if kerneltype g \<noteq> K_POLY
            then Ok (st\<lparr>rd_grid := g\<lparr>Nd := 0\<rparr>\<rparr>) (fprintf STDERR Degree_Ignored w)
            else Ok (st\<lparr>rd_grid := g\<lparr>degrees := params, Nd := length params\<rparr>\<rparr>) w)
      else Ok st (fprintf STDERR (No_Parameters buffer) w))"

text \<open>The loop \<^verbatim>\<open>while (fgets(...) != NULL)\<close> over the lines of the file.\<close>

fun grid_lines ::
  "(string \<Rightarrow> nat \<Rightarrow> real list) \<Rightarrow> (string \<Rightarrow> nat \<Rightarrow> int list) \<Rightarrow> string list
     \<Rightarrow> grid_reader \<Rightarrow> world \<Rightarrow> grid_reader result" where
  "grid_lines all_doubles_str all_longs_str [] st w = Ok st w"
| "grid_lines all_doubles_str all_longs_str (buffer # rest) st w =
     (case grid_line all_doubles_str all_longs_str buffer st w of
        Exit status w' \<Rightarrow> Exit status w'
      | Ok st' w' \<Rightarrow> grid_lines all_doubles_str all_longs_str rest st' w')"

text \<open>
  \<^verbatim>\<open>read_grid_from_file\<close>. The file system \<open>fopen\<close> maps a file name to the sequence of
  buffers that \<^verbatim>\<open>fgets\<close> yields for it, or to \<open>None\<close> when the file cannot be opened. The
  pair \<open>stack\<close> is the indeterminate initial contents of the two local file name buffers.
\<close>

definition read_grid_from_file ::
  "(string \<Rightarrow> string list option) \<Rightarrow> (string \<Rightarrow> nat \<Rightarrow> real list)
     \<Rightarrow> (string \<Rightarrow> nat \<Rightarrow> int list) \<Rightarrow> string \<times> string \<Rightarrow> string \<Rightarrow> GenGrid \<Rightarrow> world
     \<Rightarrow> GenGrid result" where
  "read_grid_from_file fopen all_doubles_str all_longs_str stack input g w =
     (case fopen input of
        None \<Rightarrow> Exit EXIT_FAILURE (fprintf STDERR (Grid_Open_Error input) w)
      | Some buffers \<Rightarrow>
          (case grid_lines all_doubles_str all_longs_str buffers
                  \<lparr>rd_grid = g\<lparr>traintype := CV\<rparr>, train_filename = fst stack,
                   test_filename = snd stack\<rparr> w of
             Exit status w' \<Rightarrow> Exit status w'
           | Ok st w' \<Rightarrow> Ok (rd_grid st) w'))"

section \<open>Reference tokenisers\<close>

text \<open>
  Modelled from the spec: \<^verbatim>\<open>all_doubles_str\<close> and \<^verbatim>\<open>all_longs_str\<close> are not part of the
  given sources. The remainder of a line is a white-space separated list of numbers. The
  two functions below read such a list in plain decimal notation (an optional sign, digits,
  and for a double an optional fraction), from the offset on, up to the first text that is
  not a number. They stand for the tokenisers where a concrete one is needed.
\<close>

definition is_digit :: "char \<Rightarrow> bool" where
  "is_digit c = (c \<in> set ''0123456789'')"

definition digit_value :: "char \<Rightarrow> nat" where
  "digit_value c = of_char c - 48"

definition decimal_value :: "string \<Rightarrow> nat" where
  "decimal_value ds = foldl (\<lambda>a c. 10 * a + digit_value c) 0 ds"

definition scan_sign :: "string \<Rightarrow> bool \<times> string" where
  "scan_sign s =
     (case s of
        [] \<Rightarrow> (False, [])
      | c # r \<Rightarrow> if c = CHR ''-'' then (True, r) else if c = CHR ''+'' then (False, r)
                 else (False, s))"

definition scan_long :: "string \<Rightarrow> (int \<times> string) option" where
  "scan_long s =
     (let (neg, s1) = scan_sign (dropWhile is_space s);
          ds = takeWhile is_digit s1;
          v = int (decimal_value ds)
      in if ds = [] then None else Some (if neg then - v else v, dropWhile is_digit s1))"

definition scan_double :: "string \<Rightarrow> (real \<times> string) option" where
  "scan_double s =
     (let (neg, s1) = scan_sign (dropWhile is_space s);
          ip = takeWhile is_digit s1;
          s2 = dropWhile is_digit s1;
          (fp, s3) = (case s2 of
                        [] \<Rightarrow> ([], [])
                      | c # r \<Rightarrow> if c = CHR ''.''
                                 then (takeWhile is_digit r, dropWhile is_digit r)
                                 else ([], s2));
          v = real (decimal_value ip) + real (decimal_value fp) / 10 ^ length fp
      in if ip = [] \<and> fp = [] then None else Some (if neg then - v else v, s3))"

text \<open>
  The loop of the tokenisers: one number after the other, as long as one is found and the
  scan moves forward.
\<close>

function scan_all :: "(string \<Rightarrow> ('a \<times> string) option) \<Rightarrow> string \<Rightarrow> 'a list" where
  "scan_all scan s =
     (case scan s of
        None \<Rightarrow> []
      | Some (v, r) \<Rightarrow> if length r < length s then v # scan_all scan r else [v])"
  by pat_completeness auto
termination
  by (relation "measure (\<lambda>(scan, s). length s)") auto

definition decimal_doubles_str :: "string \<Rightarrow> nat \<Rightarrow> real list" where
  "decimal_doubles_str buffer offset = scan_all scan_double (drop offset buffer)"

definition decimal_longs_str :: "string \<Rightarrow> nat \<Rightarrow> int list" where
  "decimal_longs_str buffer offset = scan_all scan_long (drop offset buffer)"

section \<open>Collaborators\<close>

text \<open>
  The functions that \<^verbatim>\<open>main\<close> calls and that are not part of the given sources, with the
  values the C library supplies. Each is a deterministic function of its arguments. The
  two readers fill the data structure they are given, or end the process when the file is
  missing or malformed (\<open>None\<close>). The training of the queue uses the random numbers that
  \<^verbatim>\<open>srand(seed)\<close> starts, so it takes the seed.
\<close>

record ('d, 's, 'x, 'y) env =
  atoi :: "string \<Rightarrow> int"
  now :: int
  fopen :: "string \<Rightarrow> string list option"
  stack :: "string \<times> string"
  all_doubles_str :: "string \<Rightarrow> nat \<Rightarrow> real list"
  all_longs_str :: "string \<Rightarrow> nat \<Rightarrow> int list"
  gensvm_check_argv :: "string list \<Rightarrow> string \<Rightarrow> bool"
  gensvm_check_argv_eq :: "string list \<Rightarrow> string \<Rightarrow> bool"
  gensvm_init_grid :: GenGrid
  gensvm_init_data :: "('d, 's) GenData"
  gensvm_read_data :: "('d, 's) GenData \<Rightarrow> string option \<Rightarrow> ('d, 's) GenData option"
  gensvm_read_data_libsvm ::
    "('d, 's) GenData \<Rightarrow> string option \<Rightarrow> ('d, 's) GenData option"
  gensvm_sparse_to_dense :: "'s ptr \<Rightarrow> 'd ptr"
  gensvm_fill_queue ::
    "GenGrid \<Rightarrow> ('d, 's) GenData \<Rightarrow> ('d, 's) GenData option \<Rightarrow> 'x GenTask_scheme GenQueue"
  gensvm_train_queue :: "int \<Rightarrow> 'x GenTask_scheme GenQueue \<Rightarrow> 'x GenTask_scheme GenQueue"
  gensvm_consistency_repeats :: "'x GenTask_scheme GenQueue \<Rightarrow> int \<Rightarrow> real \<Rightarrow> int"
  gensvm_task_to_model :: "'x GenTask_scheme option \<Rightarrow> 'y GenModel_scheme"
  gensvm_train :: "'y GenModel_scheme \<Rightarrow> ('d, 's) GenData \<Rightarrow> 'y GenModel_scheme"
  gensvm_kernel_postprocess ::
    "'y GenModel_scheme \<Rightarrow> ('d, 's) GenData \<Rightarrow> ('d, 's) GenData \<Rightarrow> ('d, 's) GenData"
  gensvm_predict_labels :: "('d, 's) GenData \<Rightarrow> 'y GenModel_scheme \<Rightarrow> int list"
  gensvm_prediction_perf :: "('d, 's) GenData \<Rightarrow> int list \<Rightarrow> real"

text \<open>
  Modelled from the spec: \<^verbatim>\<open>gensvm_init_queue\<close> is not part of the given sources. Tasks are
  created by the expansion of the grid, so the queue starts without any.
\<close>

definition gensvm_init_queue :: "'t GenQueue" where
  "gensvm_init_queue = \<lparr>tasks = []\<rparr>"

text \<open>
  Modelled from the spec: \<^verbatim>\<open>gensvm_check_outcome_contiguous\<close> is not part of the given
  sources. The labels must be contiguous positive integers starting at 1 with no gaps: the
  labels that occur are exactly the numbers from 1 up to the number of distinct labels.
\<close>

definition labels :: "('d, 's, 'z) GenData_scheme \<Rightarrow> int list" where
  "labels d = (case data_y d of None \<Rightarrow> [] | Some ys \<Rightarrow> ys)"

definition gensvm_check_outcome_contiguous :: "('d, 's, 'z) GenData_scheme \<Rightarrow> bool" where
  "gensvm_check_outcome_contiguous d =
     (set (labels d) = {1 .. int (card (set (labels d)))})"

text \<open>
  Modelled from the spec: \<^verbatim>\<open>gensvm_write_predictions\<close> is not part of the given sources.
  The predictions go to the destination file, one label per test sample.
\<close>

definition gensvm_write_predictions :: "int list \<Rightarrow> string option \<Rightarrow> world \<Rightarrow> world" where
  "gensvm_write_predictions predy file w =
     w\<lparr>prediction_files := prediction_files w @ [(file, predy)]\<rparr>"

section \<open>Selection of the best task\<close>

text \<open>
  The loop of lines 180 to 185: \<open>maxperf\<close> and \<open>best_ID\<close> are the two variables it updates.
\<close>

fun scan_best :: "'x GenTask_scheme list \<Rightarrow> real \<Rightarrow> int \<Rightarrow> real \<times> int" where
  "scan_best [] maxperf best = (maxperf, best)"
| "scan_best (t # ts) maxperf best =
     (if performance t > maxperf then scan_best ts (performance t) (ID t)
      else scan_best ts maxperf best)"

text \<open>
  Lines 175 to 186: the identifier of the best task, from the value \<open>best\<close> that
  \<^verbatim>\<open>best_ID\<close> has before (it is \<open>-1\<close> in \<^verbatim>\<open>main\<close>). The consistency algorithm is a parameter.
\<close>

definition simple_select :: "'x GenTask_scheme GenQueue \<Rightarrow> int \<Rightarrow> int" where
  "simple_select q best = snd (scan_best (tasks q) (-1) best)"

definition select_best ::
  "('x GenTask_scheme GenQueue \<Rightarrow> int \<Rightarrow> real \<Rightarrow> int) \<Rightarrow> GenGrid
     \<Rightarrow> 'x GenTask_scheme GenQueue \<Rightarrow> int \<Rightarrow> int" where
  "select_best consistency_repeats g q best =
     (if repeats g > 0 then consistency_repeats q (repeats g) (percentile g)
      else simple_select q best)"

text \<open>
  The loop of lines 196 to 198, which runs over the whole queue: \<open>best_task\<close> is the last
  task whose identifier is \<open>best\<close>, and stays the null pointer when there is none.
\<close>

fun find_best_task ::
  "'x GenTask_scheme list \<Rightarrow> int \<Rightarrow> 'x GenTask_scheme option \<Rightarrow> 'x GenTask_scheme option" where
  "find_best_task [] best best_task = best_task"
| "find_best_task (t # ts) best best_task =
     find_best_task ts best (if ID t = best then Some t else best_task)"

section \<open>The main program\<close>

definition MINARGS :: nat where
  "MINARGS = 2"

text \<open>
  The variables of \<^verbatim>\<open>main\<close> that hold the data, the queue (\<^verbatim>\<open>q\<close> in the source) and the
  selection. The test data pointer is \<open>None\<close> once the structure is freed and the pointer
  set to null.
\<close>

record ('d, 's, 'x) locals =
  best_ID :: int
  train_data :: "('d, 's) GenData"
  test_data :: "('d, 's) GenData option"
  queue :: "'x GenTask_scheme GenQueue"

text \<open>
  How the process ends: the exit status, the variables of \<^verbatim>\<open>main\<close> at that moment, and
  the world.
\<close>

type_synonym ('d, 's, 'x) ending = "int \<times> ('d, 's, 'x) locals \<times> world"

text \<open>The pointer after \<^verbatim>\<open>gensvm_free_sparse\<close>: it is not reset, so it dangles.\<close>

definition gensvm_free_sparse :: "'s ptr \<Rightarrow> 's ptr" where
  "gensvm_free_sparse p = (case p of NULL \<Rightarrow> NULL | _ \<Rightarrow> Dangling)"

text \<open>Lines 156 to 164: the training data, with the kernel of the grid.\<close>

definition densify_train ::
  "('s ptr \<Rightarrow> 'd ptr) \<Rightarrow> KernelType \<Rightarrow> ('d, 's) GenData \<Rightarrow> world \<Rightarrow> ('d, 's) GenData \<times> world" where
  "densify_train sparse_to_dense k d w =
     (if Z d = NULL \<and> k \<noteq> K_LINEAR
      then (let raw = sparse_to_dense (spZ d)
            in (d\<lparr>RAW := raw, Z := raw, spZ := gensvm_free_sparse (spZ d)\<rparr>,
                err Sparse_Nonlinear_Warning w))
      else (d, w))"

text \<open>Lines 205 to 213: the test data, with the kernel of the best model.\<close>

definition densify_test ::
  "('s ptr \<Rightarrow> 'd ptr) \<Rightarrow> KernelType \<Rightarrow> ('d, 's) GenData \<Rightarrow> world \<Rightarrow> ('d, 's) GenData \<times> world" where
  "densify_test sparse_to_dense k d w =
     (if Z d = NULL \<and> k \<noteq> K_LINEAR
      then (d\<lparr>Z := sparse_to_dense (spZ d), spZ := gensvm_free_sparse (spZ d)\<rparr>,
            err Sparse_Nonlinear_Warning w)
      else (d, w))"

text \<open>
  The array \<^verbatim>\<open>predy\<close>: \<^verbatim>\<open>n\<close> entries, zero from \<^verbatim>\<open>Calloc\<close>, then filled with the predicted
  labels.
\<close>

definition predy_array :: "nat \<Rightarrow> int list \<Rightarrow> int list" where
  "predy_array n predicted = take n (predicted @ replicate n 0)"

text \<open>
  Lines 190 to 240, for test data \<open>test\<close>: the best task is looked up, its model trained on
  the training data, the test data made dense when needed, and the labels predicted,
  reported and written.
\<close>

definition final_pipeline ::
  "('d, 's, 'x, 'y) env \<Rightarrow> string list \<Rightarrow> string option \<Rightarrow> ('d, 's) GenData
     \<Rightarrow> ('d, 's, 'x) locals \<Rightarrow> world \<Rightarrow> ('d, 's, 'x) locals \<times> world" where
  "final_pipeline e argv po test st w =
     (let best_task = find_best_task (tasks (queue st)) (best_ID st) None;
          best_model = gensvm_train e (gensvm_task_to_model e best_task) (train_data st);
          (test1, w1) = densify_test (gensvm_sparse_to_dense e) (model_kerneltype best_model)
                          test w;
          test2 = gensvm_kernel_postprocess e best_model (train_data st) test1;
          predy = predy_array (data_n test2) (gensvm_predict_labels e test2 best_model);
          w2 = (if data_y test2 \<noteq> None
                then note (Predictive_Performance (gensvm_prediction_perf e test2 predy)) w1
                else w1);
          w3 = (if gensvm_check_argv_eq e argv ''-o''
                then note (Prediction_Written po) (gensvm_write_predictions predy po w2)
                else printf Newline (foldl (\<lambda>v l. printf (Predicted_Label l) v) w2 predy))
      in (st\<lparr>test_data := Some test2\<rparr>, w3))"

text \<open>
  Lines 166 to 249: the queue is filled and trained, the best task selected, the final
  pipeline run when there is test data, and \<^verbatim>\<open>main\<close> returns 0.
\<close>

definition search ::
  "('d, 's, 'x, 'y) env \<Rightarrow> string list \<Rightarrow> int \<Rightarrow> string option \<Rightarrow> GenGrid
     \<Rightarrow> ('d, 's, 'x) locals \<Rightarrow> world \<Rightarrow> ('d, 's, 'x) ending" where
  "search e argv sd po g st w =
     (let q1 = gensvm_fill_queue e g (train_data st) (test_data st);
          w1 = note Starting_Training (note Creating_Queue w);
          q2 = gensvm_train_queue e sd q1;
          w2 = note Training_Finished w1;
          st2 = st\<lparr>queue := q2,
                   best_ID := select_best (gensvm_consistency_repeats e) g q2 (best_ID st)\<rparr>;
          (st3, w3) = (case test_data st2 of
                         None \<Rightarrow> (st2, w2)
                       | Some test \<Rightarrow> final_pipeline e argv po test st2 w2)
      in (0, st3, note Done w3))"

text \<open>Lines 148 to 164: the check of the labels and of the representation.\<close>

definition validate ::
  "('d, 's, 'x, 'y) env \<Rightarrow> string list \<Rightarrow> int \<Rightarrow> string option \<Rightarrow> GenGrid
     \<Rightarrow> ('d, 's, 'x) locals \<Rightarrow> world \<Rightarrow> ('d, 's, 'x) ending" where
  "validate e argv sd po g st w =
     (if \<not> gensvm_check_outcome_contiguous (train_data st)
      then (EXIT_FAILURE, st, err Labels_Not_Contiguous w)
      else (let (d, w1) = densify_train (gensvm_sparse_to_dense e) (kerneltype g)
                            (train_data st) w
            in search e argv sd po g (st\<lparr>train_data := d\<rparr>) w1))"

text \<open>
  Lines 115 to 118 and 130 to 146: the structures are initialised, the training data is
  read, and the test data when the grid names a file for it.
\<close>

definition read_data ::
  "('d, 's, 'x, 'y) env \<Rightarrow> bool \<Rightarrow> ('d, 's) GenData \<Rightarrow> string option
     \<Rightarrow> ('d, 's) GenData option" where
  "read_data e libsvm_format d file =
     (if libsvm_format then gensvm_read_data_libsvm e d file else gensvm_read_data e d file)"

definition initial_locals :: "('d, 's, 'x, 'y) env \<Rightarrow> ('d, 's, 'x) locals" where
  "initial_locals e =
     \<lparr>best_ID = -1, train_data = gensvm_init_data e, test_data = Some (gensvm_init_data e),
      queue = gensvm_init_queue\<rparr>"

definition load ::
  "('d, 's, 'x, 'y) env \<Rightarrow> string list \<Rightarrow> int \<Rightarrow> string option \<Rightarrow> GenGrid \<Rightarrow> world
     \<Rightarrow> ('d, 's, 'x) ending" where
  "load e argv sd po g w =
     (let st = initial_locals e;
          libsvm_format = gensvm_check_argv e argv ''-x'';
          w1 = note (Reading_Data (train_data_file g)) w
      in case read_data e libsvm_format (gensvm_init_data e) (train_data_file g) of
           None \<Rightarrow> (EXIT_FAILURE, st, w1)
         | Some train \<Rightarrow>
             (case test_data_file g of
                None \<Rightarrow> validate e argv sd po g (st\<lparr>train_data := train, test_data := None\<rparr>) w1
              | Some file \<Rightarrow>
                  (case read_data e libsvm_format (gensvm_init_data e) (Some file) of
                     None \<Rightarrow> (EXIT_FAILURE, st\<lparr>train_data := train\<rparr>, w1)
                   | Some test \<Rightarrow>
                       validate e argv sd po g
                         (st\<lparr>train_data := train, test_data := Some test\<rparr>) w1)))"

text \<open>
  \<^verbatim>\<open>main\<close>, from the world \<open>w\<close> in which the process starts; \<open>help_requested\<close> is the
  condition of lines 120 and 121.
\<close>

definition help_requested :: "('d, 's, 'x, 'y) env \<Rightarrow> string list \<Rightarrow> bool" where
  "help_requested e argv =
     (length argv < MINARGS \<or> gensvm_check_argv e argv ''-help''
      \<or> gensvm_check_argv_eq e argv ''-h'')"

definition main :: "('d, 's, 'x, 'y) env \<Rightarrow> string list \<Rightarrow> world \<Rightarrow> ('d, 's, 'x) ending" where
  "main e argv w =
     (let st = initial_locals e in
      if help_requested e argv
      then (EXIT_FAILURE, st, printf (Help_Text argv) w)
      else
        (case parse_command_line (atoi e) (now e) argv w of
           Exit status w1 \<Rightarrow> (status, st, w1)
         | Ok (sd, input, po) w1 \<Rightarrow>
             (case read_grid_from_file (fopen e) (all_doubles_str e) (all_longs_str e)
                     (stack e) input (gensvm_init_grid e) (note Reading_Grid_File w1) of
                Exit status w2 \<Rightarrow> (status, st, w2)
              | Ok g w2 \<Rightarrow> load e argv sd po g w2)))"

text \<open>
  The condition under which \<^verbatim>\<open>parse_kernel_str\<close> returns a kernel, and the state in which
  the loop of \<^verbatim>\<open>read_grid_from_file\<close> starts when \<^verbatim>\<open>main\<close> calls it.
\<close>

definition known_kernel_ending :: "string \<Rightarrow> bool" where
  "known_kernel_ending kernel_line =
     (str_endswith kernel_line (''LINEAR'' @ newline)
      \<or> str_endswith kernel_line (''POLY'' @ newline)
      \<or> str_endswith kernel_line (''RBF'' @ newline)
      \<or> str_endswith kernel_line (''SIGMOID'' @ newline))"

definition reader_start :: "('d, 's, 'x, 'y) env \<Rightarrow> grid_reader" where
  "reader_start e =
     \<lparr>rd_grid = (gensvm_init_grid e)\<lparr>traintype := CV\<rparr>, train_filename = fst (stack e),
      test_filename = snd (stack e)\<rparr>"

section \<open>The selection as the specification words it\<close>

text \<open>
  Position \<open>k\<close> of the queue holds the greatest performance score, and no earlier position
  holds a score as great: the first task with the maximal score, in queue order.
\<close>

definition first_maximal :: "'x GenTask_scheme list \<Rightarrow> nat \<Rightarrow> bool" where
  "first_maximal ts k =
     (k < length ts \<and> (\<forall>t \<in> set ts. performance t \<le> performance (ts ! k))
        \<and> (\<forall>t \<in> set (take k ts). performance t < performance (ts ! k)))"

section \<open>Concrete inputs\<close>

text \<open>A queue with the scores 3, 5, 5, 2, and a queue whose only score is below \<open>-1\<close>.\<close>

definition score_queue :: "GenTask GenQueue" where
  "score_queue =
     \<lparr>tasks = [\<lparr>ID = 0, performance = 3\<rparr>, \<lparr>ID = 1, performance = 5\<rparr>,
               \<lparr>ID = 2, performance = 5\<rparr>, \<lparr>ID = 3, performance = 2\<rparr>]\<rparr>"

definition low_queue :: "GenTask GenQueue" where
  "low_queue = \<lparr>tasks = [\<lparr>ID = 0, performance = - 2\<rparr>]\<rparr>"

text \<open>The world at the start of the process: nothing is written yet.\<close>

definition start_world :: world where
  "start_world =
     \<lparr>GENSVM_OUTPUT_FILE = None, GENSVM_ERROR_FILE = None, written = [],
      prediction_files = []\<rparr>"

text \<open>A grid without any values, with the linear kernel.\<close>

definition example_grid :: GenGrid where
  "example_grid =
     \<lparr>traintype = CV, kerneltype = K_LINEAR, folds = 10, repeats = 0, percentile = 0,
      Np = 0, Nl = 0, Nk = 0, Ne = 0, Nw = 0, Ng = 0, Nc = 0, Nd = 0,
      ps = [], lambdas = [], kappas = [], epsilons = [], weight_idxs = [],
      gammas = [], coefs = [], degrees = [],
      train_data_file = None, test_data_file = None\<rparr>"

text \<open>
  A concrete environment: dense matrices as lists of rows, sparse matrices as lists of rows
  of the entries that are not zero, three small data files, some grid files, and
  collaborators that compute simple values.
\<close>

type_synonym dense = "real list list"
type_synonym sparse = "(nat \<times> real) list list"

definition example_sparse_to_dense :: "sparse ptr \<Rightarrow> dense ptr" where
  "example_sparse_to_dense p =
     (case p of
        Ptr rows \<Rightarrow>
          Ptr (map (\<lambda>row. map (\<lambda>j. case map_of row j of None \<Rightarrow> 0 | Some v \<Rightarrow> v) [0 ..< 2])
                 rows)
      | _ \<Rightarrow> NULL)"

definition example_read ::
  "(dense, sparse) GenData \<Rightarrow> string option \<Rightarrow> (dense, sparse) GenData option" where
  "example_read d file =
     (if file = Some ''dense.txt''
      then Some (d\<lparr>Z := Ptr [[1, 0], [0, 1], [1, 1]], data_y := Some [1, 2, 3], data_n := 3\<rparr>)
      else if file = Some ''gaps.txt''
      then Some (d\<lparr>Z := Ptr [[1, 0], [0, 1], [1, 1]], data_y := Some [1, 2, 4], data_n := 3\<rparr>)
      else if file = Some ''sparse.txt''
      then Some (d\<lparr>spZ := Ptr [[(0, 1)], [(1, 1)], [(0, 1), (1, 1)]],
                   data_y := Some [1, 2, 3], data_n := 3\<rparr>)
      else None)"

definition example_files :: "string \<Rightarrow> string list option" where
  "example_files name =
     (if name = ''gaps.grid''
      then Some [''train: gaps.txt'' @ newline, ''p: 1 2'' @ newline]
      else if name = ''sparse.grid''
      then Some [''train: sparse.txt'' @ newline, ''test: sparse.txt'' @ newline,
                 ''kernel: RBF'' @ newline, ''p: 1 2'' @ newline,
                 ''gamma: 0.5'' @ newline]
      else if name = ''kernel.grid''
      then Some [''train: dense.txt'' @ newline, ''kernel: GAUSS'' @ newline,
                 ''p: 1 2'' @ newline]
      else if name = ''dense.grid''
      then Some [''train: dense.txt'' @ newline, ''p: 1 2'' @ newline]
      else if name = ''nonlinear.grid''
      then Some [''train: dense.txt'' @ newline, ''kernel: NONLINEAR'' @ newline,
                 ''p: 1 2'' @ newline]
      else if name = ''typo.grid''
      then Some [''train: dense.txt'' @ newline, ''gama: 1'' @ newline,
                 ''p: 1 2'' @ newline]
      else None)"

definition example_env :: "(dense, sparse, unit, unit) env" where
  "example_env =
     \<lparr>atoi = (\<lambda>s. int (decimal_value (takeWhile is_digit s))),
      now = 0,
      fopen = example_files,
      stack = ([], []),
      all_doubles_str = decimal_doubles_str,
      all_longs_str = decimal_longs_str,
      gensvm_check_argv = (\<lambda>argv s. s \<in> set argv),
      gensvm_check_argv_eq = (\<lambda>argv s. s \<in> set argv),
      gensvm_init_grid = example_grid,
      gensvm_init_data = \<lparr>Z = NULL, RAW = NULL, spZ = NULL, data_y = None, data_n = 0\<rparr>,
      gensvm_read_data = example_read,
      gensvm_read_data_libsvm = example_read,
      gensvm_sparse_to_dense = example_sparse_to_dense,
      gensvm_fill_queue =
        (\<lambda>g train test. \<lparr>tasks = map (\<lambda>i. \<lparr>ID = int i, performance = 0\<rparr>) [0 ..< Np g]\<rparr>),
      gensvm_train_queue =
        (\<lambda>sd q. q\<lparr>tasks := map (\<lambda>t. t\<lparr>performance := 50 + real_of_int (ID t)\<rparr>) (tasks q)\<rparr>),
      gensvm_consistency_repeats = (\<lambda>q r p. 0),
      gensvm_task_to_model = (\<lambda>t. \<lparr>model_kerneltype = K_RBF\<rparr>),
      gensvm_train = (\<lambda>m d. m),
      gensvm_kernel_postprocess = (\<lambda>m train test. test),
      gensvm_predict_labels = (\<lambda>test m. replicate (data_n test) 1),
      gensvm_prediction_perf = (\<lambda>test predy. 100)\<rparr>"

text \<open>
  A state of the grid file reader: the RBF kernel is set and two gamma values are stored.
\<close>

definition example_reader :: grid_reader where
  "example_reader =
     \<lparr>rd_grid = example_grid\<lparr>kerneltype := K_RBF, gammas := [1, 2], Ng := 2\<rparr>,
      train_filename = [], test_filename = []\<rparr>"

text \<open>
  Grid files in which a key occurs on two lines, and one in which the second
  \<^verbatim>\<open>gamma:\<close> line comes after the kernel has been set to the linear one; the state in
  which the reader starts on them; and the reader with the reference tokenisers.
\<close>

definition key_lines :: "string \<Rightarrow> string list" where
  "key_lines key =
     [''kernel: POLY'' @ newline, key @ '' 1'' @ newline] @ (key @ '' 2 3'' @ newline)
       # [''folds: 5'' @ newline]"

definition stale_gamma_lines :: "string list" where
  "stale_gamma_lines =
     [''kernel: RBF'' @ newline, ''gamma: 1 2'' @ newline, ''kernel: LINEAR'' @ newline]
       @ (''gamma: 3 4 5'' @ newline) # []"

definition start_reader :: grid_reader where
  "start_reader = \<lparr>rd_grid = example_grid, train_filename = [], test_filename = []\<rparr>"

definition decimal_grid_lines :: "string list \<Rightarrow> grid_reader result" where
  "decimal_grid_lines ls =
     grid_lines decimal_doubles_str decimal_longs_str ls start_reader start_world"

text \<open>The world with both streams open and nothing written.\<close>

definition loud_world :: world where
  "loud_world = start_world\<lparr>GENSVM_OUTPUT_FILE := Some STDOUT, GENSVM_ERROR_FILE := Some STDERR\<rparr>"

text \<open>
  The test data that \<^verbatim>\<open>main\<close> holds after lines 136 to 146: none when the grid names no
  test file, and otherwise what the reader returns for that file.
\<close>

definition test_loaded ::
  "('d, 's, 'x, 'y) env \<Rightarrow> string list \<Rightarrow> GenGrid \<Rightarrow> ('d, 's) GenData option \<Rightarrow> bool" where
  "test_loaded e argv g test =
     (case test_data_file g of
        None \<Rightarrow> test = None
      | Some file \<Rightarrow>
          test \<noteq> None
          \<and> read_data e (gensvm_check_argv e argv ''-x'') (gensvm_init_data e) (Some file) = test)"


text \<open>
  The queue after lines 166 to 173: filled from the grid and the data, then trained.
\<close>

definition trained_queue ::
  "('d, 's, 'x, 'y) env \<Rightarrow> int \<Rightarrow> GenGrid \<Rightarrow> ('d, 's, 'x) locals \<Rightarrow> 'x GenTask_scheme GenQueue" where
  "trained_queue e sd g st =
     gensvm_train_queue e sd (gensvm_fill_queue e g (train_data st) (test_data st))"

text \<open>
  A data set in dense form, and the variables of \<^verbatim>\<open>main\<close> after a search on two tasks
  that has selected the task with identifier 1, with test data in sparse form.
\<close>

definition dense_example :: "(dense, sparse) GenData" where
  "dense_example =
     \<lparr>Z = Ptr [[1, 0], [0, 1], [1, 1]], RAW = NULL, spZ = NULL,
      data_y = Some [1, 2, 3], data_n = 3\<rparr>"


section \<open>Properties of the selection\<close>

lemma scan_best_none:
  "\<forall>t \<in> set ts. performance t \<le> m \<Longrightarrow> scan_best ts m b = (m, b)"
  by (induction ts arbitrary: m b) auto

lemma first_maximal_Cons_head:
  "first_maximal (t # ts) 0 \<Longrightarrow> \<forall>u \<in> set ts. performance u \<le> performance t"
  by (simp add: first_maximal_def)

lemma first_maximal_Cons_tail:
  "first_maximal (t # ts) (Suc k) \<Longrightarrow>
     first_maximal ts k \<and> performance t < performance (ts ! k)"
  by (simp add: first_maximal_def)

lemma scan_best_first_maximal:
  "first_maximal ts k \<Longrightarrow> m < performance (ts ! k) \<Longrightarrow>
     scan_best ts m b = (performance (ts ! k), ID (ts ! k))"
proof (induction ts arbitrary: k m b)
  case Nil
  then show ?case by (simp add: first_maximal_def)
next
  case (Cons t ts)
  show ?case
  proof (cases k)
    case 0
    with Cons.prems have "\<forall>u \<in> set ts. performance u \<le> performance t"
      using first_maximal_Cons_head by blast
    with Cons.prems 0 show ?thesis by (simp add: scan_best_none)
  next
    case (Suc k')
    with Cons.prems have fm: "first_maximal ts k'"
      and lt: "performance t < performance (ts ! k')"
      using first_maximal_Cons_tail by blast+
    show ?thesis
    proof (cases "performance t > m")
      case True
      with Cons.IH [OF fm lt] Suc show ?thesis by simp
    next
      case False
      with Cons.prems Suc have "m < performance (ts ! k')" by simp
      with Cons.IH [OF fm this] False Suc show ?thesis by simp
    qed
  qed
qed

lemma find_best_task_absent:
  "\<forall>t \<in> set ts. ID t \<noteq> b \<Longrightarrow> find_best_task ts b bt = bt"
  by (induction ts arbitrary: bt) auto

lemma find_best_task_distinct:
  "distinct (map ID ts) \<Longrightarrow> k < length ts \<Longrightarrow>
     find_best_task ts (ID (ts ! k)) bt = Some (ts ! k)"
proof (induction ts arbitrary: k bt)
  case Nil
  then show ?case by simp
next
  case (Cons t ts)
  show ?case
  proof (cases k)
    case 0
    from Cons.prems have "ID t \<notin> ID ` set ts" by simp
    then have "\<forall>u \<in> set ts. ID u \<noteq> ID t" by (metis imageI)
    with 0 show ?thesis by (simp add: find_best_task_absent)
  next
    case (Suc k')
    with Cons.prems have "k' < length ts" "distinct (map ID ts)" by auto
    with Cons.IH Suc show ?thesis by simp
  qed
qed

text \<open>
  Claim C1, as amended. In simple selection mode the scan goes through the queue in order.
  When position \<open>k\<close> is the first position with the greatest score and that score is
  greater than \<open>-1\<close>, the scan leaves the identifier of the task at \<open>k\<close> in \<open>best_ID\<close>, whatever
  \<open>best_ID\<close> was before; with identifiers that differ from task to task, the later lookup
  finds exactly that task.
\<close>

theorem simple_selection_first_maximum:
  assumes "first_maximal (tasks q) k" and "- 1 < performance (tasks q ! k)"
  shows "simple_select q b = ID (tasks q ! k)
         \<and> (distinct (map ID (tasks q)) \<longrightarrow>
              find_best_task (tasks q) (simple_select q b) None = Some (tasks q ! k))"
proof -
  have sel: "simple_select q b = ID (tasks q ! k)"
    using scan_best_first_maximal [OF assms] by (simp add: simple_select_def)
  from assms(1) have "k < length (tasks q)" by (simp add: first_maximal_def)
  with sel show ?thesis by (simp add: find_best_task_distinct)
qed

text \<open>
  The scores 3, 5, 5, 2: position 1 is the first with the greatest score, and the task
  there, with identifier 1, is selected, not the task at position 2.
\<close>

theorem simple_selection_first_maximum_witness:
  "first_maximal (tasks score_queue) 1 \<and> - 1 < performance (tasks score_queue ! 1)
   \<and> distinct (map ID (tasks score_queue))
   \<and> simple_select score_queue (- 1) = 1
   \<and> find_best_task (tasks score_queue) (simple_select score_queue (- 1)) None
       = Some \<lparr>ID = 1, performance = 5\<rparr>"
proof -
  have h1: "first_maximal (tasks score_queue) 1"
    by (simp add: first_maximal_def score_queue_def)
  have h2: "- 1 < performance (tasks score_queue ! 1)"
    by (simp add: score_queue_def)
  have h3: "distinct (map ID (tasks score_queue))"
    by (simp add: score_queue_def)
  have h4: "tasks score_queue ! 1 = \<lparr>ID = 1, performance = 5\<rparr>"
    by (simp add: score_queue_def)
  from simple_selection_first_maximum [OF h1 h2, of "- 1"] h1 h2 h3 h4
  show ?thesis by auto
qed

text \<open>
  Claim C1 as it is stated fails: in a queue whose greatest score is not above \<open>-1\<close> the
  task with the greatest score is not selected. Here the only task has score \<open>-2\<close> and
  identifier 0, and \<open>best_ID\<close> stays \<open>-1\<close>.
\<close>

theorem simple_selection_counterexample:
  "first_maximal (tasks low_queue) 0
   \<and> simple_select low_queue (- 1) \<noteq> ID (tasks low_queue ! 0)
   \<and> find_best_task (tasks low_queue) (simple_select low_queue (- 1)) None = None"
  by (simp add: first_maximal_def low_queue_def simple_select_def)

text \<open>
  Claim C9. In simple selection mode, when every task of the queue has a performance of at
  most \<open>-1\<close> (or the queue is empty), \<open>best_ID\<close> keeps the value \<open>-1\<close> it starts with. Task
  identifiers are assigned from zero or one upwards, so none of them is \<open>-1\<close>, and the
  lookup of the best task leaves the null pointer.
\<close>

theorem sentinel_kept:
  assumes "\<forall>t \<in> set (tasks q). performance t \<le> - 1"
    and "\<forall>t \<in> set (tasks q). 0 \<le> ID t"
  shows "simple_select q (- 1) = - 1
         \<and> (\<forall>t \<in> set (tasks q). ID t \<noteq> simple_select q (- 1))
         \<and> find_best_task (tasks q) (simple_select q (- 1)) None = None"
proof -
  have sel: "simple_select q (- 1) = - 1"
    using scan_best_none [OF assms(1)] by (simp add: simple_select_def)
  from assms(2) have "\<forall>t \<in> set (tasks q). ID t \<noteq> - 1" by auto
  with sel show ?thesis by (simp add: find_best_task_absent)
qed

theorem sentinel_kept_witness:
  "list_all (\<lambda>t. performance t \<le> - 1) (tasks low_queue)
   \<and> list_all (\<lambda>t. 0 \<le> ID t) (tasks low_queue)
   \<and> simple_select low_queue (- 1) = - 1
   \<and> find_best_task (tasks low_queue) (simple_select low_queue (- 1)) None = None"
proof -
  have h1: "\<forall>t \<in> set (tasks low_queue). performance t \<le> - 1"
    by (simp add: low_queue_def)
  have h2: "\<forall>t \<in> set (tasks low_queue). 0 \<le> ID t"
    by (simp add: low_queue_def)
  from sentinel_kept [OF h1 h2] h1 h2 show ?thesis by (auto simp: list_all_iff)
qed

lemma final_pipeline_consistency:
  "final_pipeline (e\<lparr>gensvm_consistency_repeats := c'\<rparr>) argv po test st w
     = final_pipeline e argv po test st w"
  by (simp add: final_pipeline_def Let_def split: prod.split)

section \<open>Properties of the grid file reader\<close>

lemma str_startswith_append: "str_startswith s p \<longleftrightarrow> (\<exists>r. s = p @ r)"
proof
  assume "str_startswith s p"
  then have "s = p @ drop (length p) s"
    by (metis append_take_drop_id str_startswith_def)
  then show "\<exists>r. s = p @ r" ..
next
  assume "\<exists>r. s = p @ r"
  then show "str_startswith s p" by (auto simp: str_startswith_def)
qed

lemma str_startswith_Cons [simp]:
  "str_startswith (c # s) (d # p) \<longleftrightarrow> c = d \<and> str_startswith s p"
  by (auto simp: str_startswith_def)

lemma str_startswith_Nil [simp]: "str_startswith s []"
  by (simp add: str_startswith_def)

lemma str_startswith_Nil_Cons [simp]: "\<not> str_startswith [] (d # p)"
  by (simp add: str_startswith_def)

text \<open>What one iteration of the loop does, key by key.\<close>

lemma grid_line_p:
  assumes "str_startswith buffer ''p:''"
  shows "grid_line ads als buffer st w =
           Ok (st\<lparr>rd_grid := (rd_grid st)\<lparr>ps := ads buffer 2,
                                           Np := length (ads buffer 2)\<rparr>\<rparr>) w"
proof -
  from assms obtain r where "buffer = ''p:'' @ r"
    by (auto simp: str_startswith_append)
  then show ?thesis by (simp add: grid_line_def Let_def)
qed

lemma grid_line_lambda:
  assumes "str_startswith buffer ''lambda:''"
  shows "grid_line ads als buffer st w =
           Ok (st\<lparr>rd_grid := (rd_grid st)\<lparr>lambdas := ads buffer 7,
                                           Nl := length (ads buffer 7)\<rparr>\<rparr>) w"
proof -
  from assms obtain r where "buffer = ''lambda:'' @ r"
    by (auto simp: str_startswith_append)
  then show ?thesis by (simp add: grid_line_def Let_def)
qed

lemma grid_line_kappa:
  assumes "str_startswith buffer ''kappa:''"
  shows "grid_line ads als buffer st w =
           Ok (st\<lparr>rd_grid := (rd_grid st)\<lparr>kappas := ads buffer 6,
                                           Nk := length (ads buffer 6)\<rparr>\<rparr>) w"
proof -
  from assms obtain r where "buffer = ''kappa:'' @ r"
    by (auto simp: str_startswith_append)
  then show ?thesis by (simp add: grid_line_def Let_def)
qed

lemma grid_line_epsilon:
  assumes "str_startswith buffer ''epsilon:''"
  shows "grid_line ads als buffer st w =
           Ok (st\<lparr>rd_grid := (rd_grid st)\<lparr>epsilons := ads buffer 8,
                                           Ne := length (ads buffer 8)\<rparr>\<rparr>) w"
proof -
  from assms obtain r where "buffer = ''epsilon:'' @ r"
    by (auto simp: str_startswith_append)
  then show ?thesis by (simp add: grid_line_def Let_def)
qed

lemma grid_line_weight:
  assumes "str_startswith buffer ''weight:''"
  shows "grid_line ads als buffer st w =
           Ok (st\<lparr>rd_grid := (rd_grid st)\<lparr>weight_idxs := map long_to_int (als buffer 7),
                                           Nw := length (als buffer 7)\<rparr>\<rparr>) w"
proof -
  from assms obtain r where "buffer = ''weight:'' @ r"
    by (auto simp: str_startswith_append)
  then show ?thesis by (simp add: grid_line_def Let_def)
qed

lemma grid_line_folds:
  assumes "str_startswith buffer ''folds:''"
  shows "grid_line ads als buffer st w =
           Ok (st\<lparr>rd_grid := (rd_grid st)\<lparr>folds := first_or_zero (als buffer 6)\<rparr>\<rparr>)
             (extra_values_warning ''folds'' (length (als buffer 6)) w)"
proof -
  from assms obtain r where "buffer = ''folds:'' @ r"
    by (auto simp: str_startswith_append)
  then show ?thesis by (simp add: grid_line_def Let_def)
qed

lemma grid_line_repeats:
  assumes "str_startswith buffer ''repeats:''"
  shows "grid_line ads als buffer st w =
           Ok (st\<lparr>rd_grid := (rd_grid st)\<lparr>repeats := first_or_zero (als buffer 8)\<rparr>\<rparr>)
             (extra_values_warning ''repeats'' (length (als buffer 8)) w)"
proof -
  from assms obtain r where "buffer = ''repeats:'' @ r"
    by (auto simp: str_startswith_append)
  then show ?thesis by (simp add: grid_line_def Let_def)
qed

lemma grid_line_percentile:
  assumes "str_startswith buffer ''percentile:''"
  shows "grid_line ads als buffer st w =
           Ok (st\<lparr>rd_grid := (rd_grid st)\<lparr>percentile := first_or_zero (ads buffer 11)\<rparr>\<rparr>)
             (extra_values_warning ''percentile'' (length (ads buffer 11)) w)"
proof -
  from assms obtain r where "buffer = ''percentile:'' @ r"
    by (auto simp: str_startswith_append)
  then show ?thesis by (simp add: grid_line_def Let_def)
qed

lemma grid_line_kernel:
  assumes "str_startswith buffer ''kernel:''"
  shows "grid_line ads als buffer st w =
           (case parse_kernel_str buffer w of
              Exit status w' \<Rightarrow> Exit status w'
            | Ok k w' \<Rightarrow> Ok (st\<lparr>rd_grid := (rd_grid st)\<lparr>kerneltype := k\<rparr>\<rparr>) w')"
proof -
  from assms obtain r where "buffer = ''kernel:'' @ r"
    by (auto simp: str_startswith_append)
  then show ?thesis by (simp add: grid_line_def Let_def)
qed

lemma grid_line_gamma:
  assumes "str_startswith buffer ''gamma:''"
  shows "grid_line ads als buffer st w =
           (if kerneltype (rd_grid st) = K_LINEAR
            then Ok (st\<lparr>rd_grid := (rd_grid st)\<lparr>Ng := 0\<rparr>\<rparr>) (fprintf STDERR Gamma_Ignored w)
            else Ok (st\<lparr>rd_grid := (rd_grid st)\<lparr>gammas := ads buffer 6,
                                                Ng := length (ads buffer 6)\<rparr>\<rparr>) w)"
proof -
  from assms obtain r where "buffer = ''gamma:'' @ r"
    by (auto simp: str_startswith_append)
  then show ?thesis by (simp add: grid_line_def Let_def)
qed

lemma grid_line_coef:
  assumes "str_startswith buffer ''coef:''"
  shows "grid_line ads als buffer st w =
           (if kerneltype (rd_grid st) = K_LINEAR \<or> kerneltype (rd_grid st) = K_RBF
            then Ok (st\<lparr>rd_grid := (rd_grid st)\<lparr>Nc := 0\<rparr>\<rparr>) (fprintf STDERR Coef_Ignored w)
            else Ok (st\<lparr>rd_grid := (rd_grid st)\<lparr>coefs := ads buffer 5,
                                                Nc := length (ads buffer 5)\<rparr>\<rparr>) w)"
proof -
  from assms obtain r where "buffer = ''coef:'' @ r"
    by (auto simp: str_startswith_append)
  then show ?thesis by (simp add: grid_line_def Let_def)
qed

lemma grid_line_degree:
  assumes "str_startswith buffer ''degree:''"
  shows "grid_line ads als buffer st w =
           (if kerneltype (rd_grid st) \<noteq> K_POLY
            then Ok (st\<lparr>rd_grid := (rd_grid st)\<lparr>Nd := 0\<rparr>\<rparr>) (fprintf STDERR Degree_Ignored w)
            else Ok (st\<lparr>rd_grid := (rd_grid st)\<lparr>degrees := ads buffer 7,
                                                Nd := length (ads buffer 7)\<rparr>\<rparr>) w)"
proof -
  from assms obtain r where "buffer = ''degree:'' @ r"
    by (auto simp: str_startswith_append)
  then show ?thesis by (simp add: grid_line_def Let_def)
qed

text \<open>A line that does not start with a key leaves the field of that key as it is.\<close>

lemma grid_line_p_frame:
  "\<not> str_startswith buffer ''p:'' \<Longrightarrow> grid_line ads als buffer st w = Ok st' w' \<Longrightarrow>
     (ps (rd_grid st'), Np (rd_grid st')) = (ps (rd_grid st), Np (rd_grid st))"
  by (auto simp: grid_line_def Let_def parse_kernel_str_def split: if_splits)

lemma grid_line_lambda_frame:
  "\<not> str_startswith buffer ''lambda:'' \<Longrightarrow> grid_line ads als buffer st w = Ok st' w' \<Longrightarrow>
     (lambdas (rd_grid st'), Nl (rd_grid st')) = (lambdas (rd_grid st), Nl (rd_grid st))"
  by (auto simp: grid_line_def Let_def parse_kernel_str_def split: if_splits)

lemma grid_line_kappa_frame:
  "\<not> str_startswith buffer ''kappa:'' \<Longrightarrow> grid_line ads als buffer st w = Ok st' w' \<Longrightarrow>
     (kappas (rd_grid st'), Nk (rd_grid st')) = (kappas (rd_grid st), Nk (rd_grid st))"
  by (auto simp: grid_line_def Let_def parse_kernel_str_def split: if_splits)

lemma grid_line_epsilon_frame:
  "\<not> str_startswith buffer ''epsilon:'' \<Longrightarrow> grid_line ads als buffer st w = Ok st' w' \<Longrightarrow>
     (epsilons (rd_grid st'), Ne (rd_grid st')) = (epsilons (rd_grid st), Ne (rd_grid st))"
  by (auto simp: grid_line_def Let_def parse_kernel_str_def split: if_splits)

lemma grid_line_weight_frame:
  "\<not> str_startswith buffer ''weight:'' \<Longrightarrow> grid_line ads als buffer st w = Ok st' w' \<Longrightarrow>
     (weight_idxs (rd_grid st'), Nw (rd_grid st')) = (weight_idxs (rd_grid st), Nw (rd_grid st))"
  by (auto simp: grid_line_def Let_def parse_kernel_str_def split: if_splits)

lemma grid_line_gamma_frame:
  "\<not> str_startswith buffer ''gamma:'' \<Longrightarrow> grid_line ads als buffer st w = Ok st' w' \<Longrightarrow>
     (gammas (rd_grid st'), Ng (rd_grid st')) = (gammas (rd_grid st), Ng (rd_grid st))"
  by (auto simp: grid_line_def Let_def parse_kernel_str_def split: if_splits)

lemma grid_line_coef_frame:
  "\<not> str_startswith buffer ''coef:'' \<Longrightarrow> grid_line ads als buffer st w = Ok st' w' \<Longrightarrow>
     (coefs (rd_grid st'), Nc (rd_grid st')) = (coefs (rd_grid st), Nc (rd_grid st))"
  by (auto simp: grid_line_def Let_def parse_kernel_str_def split: if_splits)

lemma grid_line_degree_frame:
  "\<not> str_startswith buffer ''degree:'' \<Longrightarrow> grid_line ads als buffer st w = Ok st' w' \<Longrightarrow>
     (degrees (rd_grid st'), Nd (rd_grid st')) = (degrees (rd_grid st), Nd (rd_grid st))"
  by (auto simp: grid_line_def Let_def parse_kernel_str_def split: if_splits)

lemma grid_lines_append:
  "grid_lines ads als (pre @ post) st w =
     (case grid_lines ads als pre st w of
        Exit status w' \<Rightarrow> Exit status w'
      | Ok st' w' \<Rightarrow> grid_lines ads als post st' w')"
  by (induction pre arbitrary: st w) (auto split: result.split)

lemma grid_lines_frame:
  assumes step: "\<And>l s v s' v'. \<not> str_startswith l key \<Longrightarrow>
                   grid_line ads als l s v = Ok s' v' \<Longrightarrow> f (rd_grid s') = f (rd_grid s)"
  shows "\<forall>l \<in> set ls. \<not> str_startswith l key \<Longrightarrow> grid_lines ads als ls st w = Ok st' w' \<Longrightarrow>
           f (rd_grid st') = f (rd_grid st)"
proof (induction ls arbitrary: st w)
  case Nil
  then show ?case by simp
next
  case (Cons l ls)
  from Cons.prems(2) obtain s1 w1 where
    l: "grid_line ads als l st w = Ok s1 w1" and rest: "grid_lines ads als ls s1 w1 = Ok st' w'"
    by (auto split: result.splits)
  from Cons.prems(1) have "\<not> str_startswith l key" and "\<forall>l \<in> set ls. \<not> str_startswith l key"
    by simp_all
  with Cons.IH rest step [OF _ l] show ?case by simp
qed

text \<open>
  The state after a file in which \<open>buffer\<close> is the last line that starts with \<open>key\<close>: the
  field of that key is as the line \<open>buffer\<close> left it.
\<close>

lemma grid_lines_last:
  assumes step: "\<And>l s v s' v'. \<not> str_startswith l key \<Longrightarrow>
                   grid_line ads als l s v = Ok s' v' \<Longrightarrow> f (rd_grid s') = f (rd_grid s)"
    and run: "grid_lines ads als (pre @ buffer # post) st w = Ok st' w'"
    and pre: "grid_lines ads als pre st w = Ok st1 w1"
    and last: "\<forall>l \<in> set post. \<not> str_startswith l key"
  shows "\<exists>st2 w2. grid_line ads als buffer st1 w1 = Ok st2 w2
           \<and> f (rd_grid st') = f (rd_grid st2)"
proof -
  from run pre have "grid_lines ads als (buffer # post) st1 w1 = Ok st' w'"
    by (simp add: grid_lines_append)
  then obtain st2 w2 where
    b: "grid_line ads als buffer st1 w1 = Ok st2 w2"
    and rest: "grid_lines ads als post st2 w2 = Ok st' w'"
    by (auto split: result.splits)
  from grid_lines_frame [where f = f, OF step last rest] have "f (rd_grid st') = f (rd_grid st2)"
    by simp
  with b show ?thesis by blast
qed

text \<open>
  Claim C4. Whether a \<^verbatim>\<open>gamma:\<close>, \<^verbatim>\<open>coef:\<close> or \<^verbatim>\<open>degree:\<close> line applies is judged against
  the kernel that the grid holds when the line is parsed. Gamma with the linear kernel,
  coef with the linear or the RBF kernel, and degree with any kernel other than the
  polynomial one: the values of the line are not stored, the count of the field is set to
  zero, a message goes to the standard error stream, and the loop goes on. A file with the
  line \<^verbatim>\<open>kernel: LINEAR\<close> followed by \<^verbatim>\<open>gamma: 0.1 0.2\<close> leaves the gamma count zero,
  whatever the tokenisers and the state before.
\<close>

theorem inapplicable_kernel_parameter:
  "(str_startswith buffer ''gamma:'' \<and> kerneltype (rd_grid st) = K_LINEAR \<longrightarrow>
      grid_line ads als buffer st w =
        Ok (st\<lparr>rd_grid := (rd_grid st)\<lparr>Ng := 0\<rparr>\<rparr>) (fprintf STDERR Gamma_Ignored w))
   \<and> (str_startswith buffer ''coef:''
        \<and> (kerneltype (rd_grid st) = K_LINEAR \<or> kerneltype (rd_grid st) = K_RBF) \<longrightarrow>
      grid_line ads als buffer st w =
        Ok (st\<lparr>rd_grid := (rd_grid st)\<lparr>Nc := 0\<rparr>\<rparr>) (fprintf STDERR Coef_Ignored w))
   \<and> (str_startswith buffer ''degree:'' \<and> kerneltype (rd_grid st) \<noteq> K_POLY \<longrightarrow>
      grid_line ads als buffer st w =
        Ok (st\<lparr>rd_grid := (rd_grid st)\<lparr>Nd := 0\<rparr>\<rparr>) (fprintf STDERR Degree_Ignored w))
   \<and> grid_lines ads als [''kernel: LINEAR'' @ newline, ''gamma: 0.1 0.2'' @ newline] st w =
        Ok (st\<lparr>rd_grid := (rd_grid st)\<lparr>kerneltype := K_LINEAR, Ng := 0\<rparr>\<rparr>)
          (fprintf STDERR Gamma_Ignored w)"
proof -
  have k: "grid_line ads als (''kernel: LINEAR'' @ newline) st w =
             Ok (st\<lparr>rd_grid := (rd_grid st)\<lparr>kerneltype := K_LINEAR\<rparr>\<rparr>) w"
    by (simp add: grid_line_kernel parse_kernel_str_def str_endswith_def newline_def)
  have g: "grid_line ads als (''gamma: 0.1 0.2'' @ newline)
             (st\<lparr>rd_grid := (rd_grid st)\<lparr>kerneltype := K_LINEAR\<rparr>\<rparr>) w =
             Ok (st\<lparr>rd_grid := (rd_grid st)\<lparr>kerneltype := K_LINEAR, Ng := 0\<rparr>\<rparr>)
               (fprintf STDERR Gamma_Ignored w)"
    by (simp add: grid_line_gamma)
  have ex: "grid_lines ads als [''kernel: LINEAR'' @ newline, ''gamma: 0.1 0.2'' @ newline] st w =
              Ok (st\<lparr>rd_grid := (rd_grid st)\<lparr>kerneltype := K_LINEAR, Ng := 0\<rparr>\<rparr>)
                (fprintf STDERR Gamma_Ignored w)"
    by (simp only: grid_lines.simps k g result.case)
  have c1: "str_startswith buffer ''gamma:'' \<and> kerneltype (rd_grid st) = K_LINEAR \<longrightarrow>
      grid_line ads als buffer st w =
        Ok (st\<lparr>rd_grid := (rd_grid st)\<lparr>Ng := 0\<rparr>\<rparr>) (fprintf STDERR Gamma_Ignored w)"
    by (simp add: grid_line_gamma)
  have c2: "str_startswith buffer ''coef:''
        \<and> (kerneltype (rd_grid st) = K_LINEAR \<or> kerneltype (rd_grid st) = K_RBF) \<longrightarrow>
      grid_line ads als buffer st w =
        Ok (st\<lparr>rd_grid := (rd_grid st)\<lparr>Nc := 0\<rparr>\<rparr>) (fprintf STDERR Coef_Ignored w)"
    by (simp add: grid_line_coef)
  have c3: "str_startswith buffer ''degree:'' \<and> kerneltype (rd_grid st) \<noteq> K_POLY \<longrightarrow>
      grid_line ads als buffer st w =
        Ok (st\<lparr>rd_grid := (rd_grid st)\<lparr>Nd := 0\<rparr>\<rparr>) (fprintf STDERR Degree_Ignored w)"
    by (simp add: grid_line_degree)
  from c1 c2 c3 ex show ?thesis by blast
qed

text \<open>
  The three cases on concrete lines, and the two-line file read from a state with the RBF
  kernel and two stored gamma values: the count becomes zero, the array keeps the values
  stored before.
\<close>

theorem inapplicable_kernel_parameter_witness:
  "grid_line decimal_doubles_str decimal_longs_str (''gamma: 0.1 0.2'' @ newline)
      (example_reader\<lparr>rd_grid := (rd_grid example_reader)\<lparr>kerneltype := K_LINEAR\<rparr>\<rparr>)
      start_world
    = Ok (example_reader\<lparr>rd_grid := (rd_grid example_reader)\<lparr>kerneltype := K_LINEAR,
                                                             Ng := 0\<rparr>\<rparr>)
        (start_world\<lparr>written := [(STDERR, Gamma_Ignored)]\<rparr>)
   \<and> grid_line decimal_doubles_str decimal_longs_str (''coef: 1'' @ newline)
        example_reader start_world
      = Ok (example_reader\<lparr>rd_grid := (rd_grid example_reader)\<lparr>Nc := 0\<rparr>\<rparr>)
          (start_world\<lparr>written := [(STDERR, Coef_Ignored)]\<rparr>)
   \<and> grid_line decimal_doubles_str decimal_longs_str (''degree: 2 3'' @ newline)
        example_reader start_world
      = Ok (example_reader\<lparr>rd_grid := (rd_grid example_reader)\<lparr>Nd := 0\<rparr>\<rparr>)
          (start_world\<lparr>written := [(STDERR, Degree_Ignored)]\<rparr>)
   \<and> (case grid_lines decimal_doubles_str decimal_longs_str
              [''kernel: LINEAR'' @ newline, ''gamma: 0.1 0.2'' @ newline]
              example_reader start_world of
          Exit status w' \<Rightarrow> False
        | Ok st' w' \<Rightarrow> Ng (rd_grid st') = 0 \<and> gammas (rd_grid st') = [1, 2]
                         \<and> written w' = [(STDERR, Gamma_Ignored)])"
proof -
  have h1: "str_startswith (''gamma: 0.1 0.2'' @ newline) ''gamma:''" by simp
  have h2: "str_startswith (''coef: 1'' @ newline) ''coef:''" by simp
  have h3: "str_startswith (''degree: 2 3'' @ newline) ''degree:''" by simp
  have k: "kerneltype (rd_grid example_reader) = K_RBF"
    by (simp add: example_reader_def)
  note t = inapplicable_kernel_parameter [where ads = decimal_doubles_str
      and als = decimal_longs_str and w = start_world]
  from t [where buffer = "''gamma: 0.1 0.2'' @ newline"
        and st = "example_reader\<lparr>rd_grid := (rd_grid example_reader)\<lparr>kerneltype := K_LINEAR\<rparr>\<rparr>"]
    t [where buffer = "''coef: 1'' @ newline" and st = example_reader]
    t [where buffer = "''degree: 2 3'' @ newline" and st = example_reader]
    h1 h2 h3 k
  show ?thesis
    by (simp add: fprintf_def start_world_def example_reader_def example_grid_def)
qed

lemma extra_values_warning_Cons:
  "extra_values_warning field (length (v # extra)) w =
     (if extra = [] then w else fprintf STDERR (Single_Value_Field field) w)"
  by (cases extra) (simp_all add: extra_values_warning_def)

text \<open>
  Claim C7. The fields \<^verbatim>\<open>folds\<close>, \<^verbatim>\<open>repeats\<close> and \<^verbatim>\<open>percentile\<close> take one value. When the
  line holds at least one value, the first is stored; further values on the line change
  neither the stored value nor the course of the loop, and a message about them goes to
  the standard error stream.
\<close>

theorem single_valued_fields:
  "(str_startswith buffer ''folds:'' \<and> als buffer 6 = v # extra \<longrightarrow>
      grid_line ads als buffer st w =
        Ok (st\<lparr>rd_grid := (rd_grid st)\<lparr>folds := v\<rparr>\<rparr>)
          (if extra = [] then w else fprintf STDERR (Single_Value_Field ''folds'') w))
   \<and> (str_startswith buffer ''repeats:'' \<and> als buffer 8 = v # extra \<longrightarrow>
      grid_line ads als buffer st w =
        Ok (st\<lparr>rd_grid := (rd_grid st)\<lparr>repeats := v\<rparr>\<rparr>)
          (if extra = [] then w else fprintf STDERR (Single_Value_Field ''repeats'') w))
   \<and> (str_startswith buffer ''percentile:'' \<and> ads buffer 11 = x # others \<longrightarrow>
      grid_line ads als buffer st w =
        Ok (st\<lparr>rd_grid := (rd_grid st)\<lparr>percentile := x\<rparr>\<rparr>)
          (if others = [] then w
           else fprintf STDERR (Single_Value_Field ''percentile'') w))"
proof -
  have c1: "str_startswith buffer ''folds:'' \<and> als buffer 6 = v # extra \<longrightarrow>
      grid_line ads als buffer st w =
        Ok (st\<lparr>rd_grid := (rd_grid st)\<lparr>folds := v\<rparr>\<rparr>)
          (if extra = [] then w else fprintf STDERR (Single_Value_Field ''folds'') w)"
    using extra_values_warning_Cons [of "''folds''" v extra w]
    by (auto simp: grid_line_folds first_or_zero_def)
  have c2: "str_startswith buffer ''repeats:'' \<and> als buffer 8 = v # extra \<longrightarrow>
      grid_line ads als buffer st w =
        Ok (st\<lparr>rd_grid := (rd_grid st)\<lparr>repeats := v\<rparr>\<rparr>)
          (if extra = [] then w else fprintf STDERR (Single_Value_Field ''repeats'') w)"
    using extra_values_warning_Cons [of "''repeats''" v extra w]
    by (auto simp: grid_line_repeats first_or_zero_def)
  have c3: "str_startswith buffer ''percentile:'' \<and> ads buffer 11 = x # others \<longrightarrow>
      grid_line ads als buffer st w =
        Ok (st\<lparr>rd_grid := (rd_grid st)\<lparr>percentile := x\<rparr>\<rparr>)
          (if others = [] then w
           else fprintf STDERR (Single_Value_Field ''percentile'') w)"
    using extra_values_warning_Cons [of "''percentile''" x others w]
    by (auto simp: grid_line_percentile first_or_zero_def)
  from c1 c2 c3 show ?thesis by blast
qed


theorem single_valued_fields_witness:
  "grid_line decimal_doubles_str decimal_longs_str (''folds: 5 7 9'' @ newline)
      example_reader start_world
    = Ok (example_reader\<lparr>rd_grid := (rd_grid example_reader)\<lparr>folds := 5\<rparr>\<rparr>)
        (start_world\<lparr>written := [(STDERR, Single_Value_Field ''folds'')]\<rparr>)
   \<and> grid_line decimal_doubles_str decimal_longs_str (''repeats: 3'' @ newline)
        example_reader start_world
      = Ok (example_reader\<lparr>rd_grid := (rd_grid example_reader)\<lparr>repeats := 3\<rparr>\<rparr>) start_world
   \<and> grid_line decimal_doubles_str decimal_longs_str (''percentile: 95.5 80'' @ newline)
        example_reader start_world
      = Ok (example_reader\<lparr>rd_grid := (rd_grid example_reader)\<lparr>percentile := 95.5\<rparr>\<rparr>)
          (start_world\<lparr>written := [(STDERR, Single_Value_Field ''percentile'')]\<rparr>)"
proof -
  have h1: "str_startswith (''folds: 5 7 9'' @ newline) ''folds:''" by simp
  have h2: "str_startswith (''repeats: 3'' @ newline) ''repeats:''" by simp
  have h3: "str_startswith (''percentile: 95.5 80'' @ newline) ''percentile:''" by simp
  have t1: "decimal_longs_str (''folds: 5 7 9'' @ newline) 6 = [5, 7, 9]" by code_simp
  have t2: "decimal_longs_str (''repeats: 3'' @ newline) 8 = [3]" by code_simp
  have t3: "decimal_doubles_str (''percentile: 95.5 80'' @ newline) 11 = [95.5, 80]"
    by code_simp
  note t = single_valued_fields [where ads = decimal_doubles_str
      and als = decimal_longs_str and w = start_world and st = example_reader]
  from t [where buffer = "''folds: 5 7 9'' @ newline" and v = 5 and extra = "[7, 9]"]
    t [where buffer = "''repeats: 3'' @ newline" and v = 3 and extra = "[]"]
    t [where buffer = "''percentile: 95.5 80'' @ newline" and x = "95.5" and others = "[80]"]
    h1 h2 h3 t1 t2 t3
  show ?thesis
    by (simp add: fprintf_def start_world_def)
qed

lemma last_p_line:
  assumes "grid_lines ads als (pre @ buffer # post) st w = Ok st' w'"
    and "grid_lines ads als pre st w = Ok st1 w1"
  shows "str_startswith buffer ''p:'' \<and> (\<forall>l \<in> set post. \<not> str_startswith l ''p:'') \<longrightarrow>
      ps (rd_grid st') = ads buffer 2
      \<and> Np (rd_grid st') = length (ads buffer 2)"
proof (intro impI, elim conjE)
  assume key: "str_startswith buffer ''p:''"
    and last: "\<forall>l \<in> set post. \<not> str_startswith l ''p:''"
  have "\<exists>st2 w2. grid_line ads als buffer st1 w1 = Ok st2 w2
          \<and> (ps (rd_grid st'), Np (rd_grid st')) = (ps (rd_grid st2), Np (rd_grid st2))"
  proof (rule grid_lines_last [where f = "\<lambda>g. (ps g, Np g)", OF _ assms last])
    fix l s v s' v'
    assume "\<not> str_startswith l ''p:''" and "grid_line ads als l s v = Ok s' v'"
    then show "(ps (rd_grid s'), Np (rd_grid s')) = (ps (rd_grid s), Np (rd_grid s))"
      by (rule grid_line_p_frame)
  qed
  then obtain st2 w2 where "grid_line ads als buffer st1 w1 = Ok st2 w2"
    and "(ps (rd_grid st'), Np (rd_grid st')) = (ps (rd_grid st2), Np (rd_grid st2))"
    by blast
  with grid_line_p [OF key, of ads als st1 w1]
  show "ps (rd_grid st') = ads buffer 2
      \<and> Np (rd_grid st') = length (ads buffer 2)"
    by auto
qed

lemma last_lambda_line:
  assumes "grid_lines ads als (pre @ buffer # post) st w = Ok st' w'"
    and "grid_lines ads als pre st w = Ok st1 w1"
  shows "str_startswith buffer ''lambda:'' \<and> (\<forall>l \<in> set post. \<not> str_startswith l ''lambda:'') \<longrightarrow>
      lambdas (rd_grid st') = ads buffer 7
      \<and> Nl (rd_grid st') = length (ads buffer 7)"
proof (intro impI, elim conjE)
  assume key: "str_startswith buffer ''lambda:''"
    and last: "\<forall>l \<in> set post. \<not> str_startswith l ''lambda:''"
  have "\<exists>st2 w2. grid_line ads als buffer st1 w1 = Ok st2 w2
          \<and> (lambdas (rd_grid st'), Nl (rd_grid st')) = (lambdas (rd_grid st2), Nl (rd_grid st2))"
  proof (rule grid_lines_last [where f = "\<lambda>g. (lambdas g, Nl g)", OF _ assms last])
    fix l s v s' v'
    assume "\<not> str_startswith l ''lambda:''" and "grid_line ads als l s v = Ok s' v'"
    then show "(lambdas (rd_grid s'), Nl (rd_grid s')) = (lambdas (rd_grid s), Nl (rd_grid s))"
      by (rule grid_line_lambda_frame)
  qed
  then obtain st2 w2 where "grid_line ads als buffer st1 w1 = Ok st2 w2"
    and "(lambdas (rd_grid st'), Nl (rd_grid st')) = (lambdas (rd_grid st2), Nl (rd_grid st2))"
    by blast
  with grid_line_lambda [OF key, of ads als st1 w1]
  show "lambdas (rd_grid st') = ads buffer 7
      \<and> Nl (rd_grid st') = length (ads buffer 7)"
    by auto
qed

lemma last_kappa_line:
  assumes "grid_lines ads als (pre @ buffer # post) st w = Ok st' w'"
    and "grid_lines ads als pre st w = Ok st1 w1"
  shows "str_startswith buffer ''kappa:'' \<and> (\<forall>l \<in> set post. \<not> str_startswith l ''kappa:'') \<longrightarrow>
      kappas (rd_grid st') = ads buffer 6
      \<and> Nk (rd_grid st') = length (ads buffer 6)"
proof (intro impI, elim conjE)
  assume key: "str_startswith buffer ''kappa:''"
    and last: "\<forall>l \<in> set post. \<not> str_startswith l ''kappa:''"
  have "\<exists>st2 w2. grid_line ads als buffer st1 w1 = Ok st2 w2
          \<and> (kappas (rd_grid st'), Nk (rd_grid st')) = (kappas (rd_grid st2), Nk (rd_grid st2))"
  proof (rule grid_lines_last [where f = "\<lambda>g. (kappas g, Nk g)", OF _ assms last])
    fix l s v s' v'
    assume "\<not> str_startswith l ''kappa:''" and "grid_line ads als l s v = Ok s' v'"
    then show "(kappas (rd_grid s'), Nk (rd_grid s')) = (kappas (rd_grid s), Nk (rd_grid s))"
      by (rule grid_line_kappa_frame)
  qed
  then obtain st2 w2 where "grid_line ads als buffer st1 w1 = Ok st2 w2"
    and "(kappas (rd_grid st'), Nk (rd_grid st')) = (kappas (rd_grid st2), Nk (rd_grid st2))"
    by blast
  with grid_line_kappa [OF key, of ads als st1 w1]
  show "kappas (rd_grid st') = ads buffer 6
      \<and> Nk (rd_grid st') = length (ads buffer 6)"
    by auto
qed

lemma last_epsilon_line:
  assumes "grid_lines ads als (pre @ buffer # post) st w = Ok st' w'"
    and "grid_lines ads als pre st w = Ok st1 w1"
  shows "str_startswith buffer ''epsilon:'' \<and> (\<forall>l \<in> set post. \<not> str_startswith l ''epsilon:'') \<longrightarrow>
      epsilons (rd_grid st') = ads buffer 8
      \<and> Ne (rd_grid st') = length (ads buffer 8)"
proof (intro impI, elim conjE)
  assume key: "str_startswith buffer ''epsilon:''"
    and last: "\<forall>l \<in> set post. \<not> str_startswith l ''epsilon:''"
  have "\<exists>st2 w2. grid_line ads als buffer st1 w1 = Ok st2 w2
          \<and> (epsilons (rd_grid st'), Ne (rd_grid st')) = (epsilons (rd_grid st2), Ne (rd_grid st2))"
  proof (rule grid_lines_last [where f = "\<lambda>g. (epsilons g, Ne g)", OF _ assms last])
    fix l s v s' v'
    assume "\<not> str_startswith l ''epsilon:''" and "grid_line ads als l s v = Ok s' v'"
    then show "(epsilons (rd_grid s'), Ne (rd_grid s')) = (epsilons (rd_grid s), Ne (rd_grid s))"
      by (rule grid_line_epsilon_frame)
  qed
  then obtain st2 w2 where "grid_line ads als buffer st1 w1 = Ok st2 w2"
    and "(epsilons (rd_grid st'), Ne (rd_grid st')) = (epsilons (rd_grid st2), Ne (rd_grid st2))"
    by blast
  with grid_line_epsilon [OF key, of ads als st1 w1]
  show "epsilons (rd_grid st') = ads buffer 8
      \<and> Ne (rd_grid st') = length (ads buffer 8)"
    by auto
qed

lemma last_weight_line:
  assumes "grid_lines ads als (pre @ buffer # post) st w = Ok st' w'"
    and "grid_lines ads als pre st w = Ok st1 w1"
  shows "str_startswith buffer ''weight:'' \<and> (\<forall>l \<in> set post. \<not> str_startswith l ''weight:'') \<longrightarrow>
      weight_idxs (rd_grid st') = map long_to_int (als buffer 7)
      \<and> Nw (rd_grid st') = length (als buffer 7)"
proof (intro impI, elim conjE)
  assume key: "str_startswith buffer ''weight:''"
    and last: "\<forall>l \<in> set post. \<not> str_startswith l ''weight:''"
  have "\<exists>st2 w2. grid_line ads als buffer st1 w1 = Ok st2 w2
          \<and> (weight_idxs (rd_grid st'), Nw (rd_grid st')) = (weight_idxs (rd_grid st2), Nw (rd_grid st2))"
  proof (rule grid_lines_last [where f = "\<lambda>g. (weight_idxs g, Nw g)", OF _ assms last])
    fix l s v s' v'
    assume "\<not> str_startswith l ''weight:''" and "grid_line ads als l s v = Ok s' v'"
    then show "(weight_idxs (rd_grid s'), Nw (rd_grid s')) = (weight_idxs (rd_grid s), Nw (rd_grid s))"
      by (rule grid_line_weight_frame)
  qed
  then obtain st2 w2 where "grid_line ads als buffer st1 w1 = Ok st2 w2"
    and "(weight_idxs (rd_grid st'), Nw (rd_grid st')) = (weight_idxs (rd_grid st2), Nw (rd_grid st2))"
    by blast
  with grid_line_weight [OF key, of ads als st1 w1]
  show "weight_idxs (rd_grid st') = map long_to_int (als buffer 7)
      \<and> Nw (rd_grid st') = length (als buffer 7)"
    by auto
qed

lemma last_gamma_line:
  assumes "grid_lines ads als (pre @ buffer # post) st w = Ok st' w'"
    and "grid_lines ads als pre st w = Ok st1 w1"
  shows "str_startswith buffer ''gamma:'' \<and> (\<forall>l \<in> set post. \<not> str_startswith l ''gamma:'') \<longrightarrow>
      (if kerneltype (rd_grid st1) = K_LINEAR
       then gammas (rd_grid st') = gammas (rd_grid st1) \<and> Ng (rd_grid st') = 0
       else gammas (rd_grid st') = ads buffer 6
            \<and> Ng (rd_grid st') = length (ads buffer 6))"
proof (intro impI, elim conjE)
  assume key: "str_startswith buffer ''gamma:''"
    and last: "\<forall>l \<in> set post. \<not> str_startswith l ''gamma:''"
  have "\<exists>st2 w2. grid_line ads als buffer st1 w1 = Ok st2 w2
          \<and> (gammas (rd_grid st'), Ng (rd_grid st')) = (gammas (rd_grid st2), Ng (rd_grid st2))"
  proof (rule grid_lines_last [where f = "\<lambda>g. (gammas g, Ng g)", OF _ assms last])
    fix l s v s' v'
    assume "\<not> str_startswith l ''gamma:''" and "grid_line ads als l s v = Ok s' v'"
    then show "(gammas (rd_grid s'), Ng (rd_grid s')) = (gammas (rd_grid s), Ng (rd_grid s))"
      by (rule grid_line_gamma_frame)
  qed
  then obtain st2 w2 where "grid_line ads als buffer st1 w1 = Ok st2 w2"
    and "(gammas (rd_grid st'), Ng (rd_grid st')) = (gammas (rd_grid st2), Ng (rd_grid st2))"
    by blast
  with grid_line_gamma [OF key, of ads als st1 w1]
  show "(if kerneltype (rd_grid st1) = K_LINEAR
       then gammas (rd_grid st') = gammas (rd_grid st1) \<and> Ng (rd_grid st') = 0
       else gammas (rd_grid st') = ads buffer 6
            \<and> Ng (rd_grid st') = length (ads buffer 6))"
    by (auto split: if_splits)
qed

lemma last_coef_line:
  assumes "grid_lines ads als (pre @ buffer # post) st w = Ok st' w'"
    and "grid_lines ads als pre st w = Ok st1 w1"
  shows "str_startswith buffer ''coef:'' \<and> (\<forall>l \<in> set post. \<not> str_startswith l ''coef:'') \<longrightarrow>
      (if kerneltype (rd_grid st1) = K_LINEAR \<or> kerneltype (rd_grid st1) = K_RBF
       then coefs (rd_grid st') = coefs (rd_grid st1) \<and> Nc (rd_grid st') = 0
       else coefs (rd_grid st') = ads buffer 5
            \<and> Nc (rd_grid st') = length (ads buffer 5))"
proof (intro impI, elim conjE)
  assume key: "str_startswith buffer ''coef:''"
    and last: "\<forall>l \<in> set post. \<not> str_startswith l ''coef:''"
  have "\<exists>st2 w2. grid_line ads als buffer st1 w1 = Ok st2 w2
          \<and> (coefs (rd_grid st'), Nc (rd_grid st')) = (coefs (rd_grid st2), Nc (rd_grid st2))"
  proof (rule grid_lines_last [where f = "\<lambda>g. (coefs g, Nc g)", OF _ assms last])
    fix l s v s' v'
    assume "\<not> str_startswith l ''coef:''" and "grid_line ads als l s v = Ok s' v'"
    then show "(coefs (rd_grid s'), Nc (rd_grid s')) = (coefs (rd_grid s), Nc (rd_grid s))"
      by (rule grid_line_coef_frame)
  qed
  then obtain st2 w2 where "grid_line ads als buffer st1 w1 = Ok st2 w2"
    and "(coefs (rd_grid st'), Nc (rd_grid st')) = (coefs (rd_grid st2), Nc (rd_grid st2))"
    by blast
  with grid_line_coef [OF key, of ads als st1 w1]
  show "(if kerneltype (rd_grid st1) = K_LINEAR \<or> kerneltype (rd_grid st1) = K_RBF
       then coefs (rd_grid st') = coefs (rd_grid st1) \<and> Nc (rd_grid st') = 0
       else coefs (rd_grid st') = ads buffer 5
            \<and> Nc (rd_grid st') = length (ads buffer 5))"
    by (auto split: if_splits)
qed

lemma last_degree_line:
  assumes "grid_lines ads als (pre @ buffer # post) st w = Ok st' w'"
    and "grid_lines ads als pre st w = Ok st1 w1"
  shows "str_startswith buffer ''degree:'' \<and> (\<forall>l \<in> set post. \<not> str_startswith l ''degree:'') \<longrightarrow>
      (if kerneltype (rd_grid st1) \<noteq> K_POLY
       then degrees (rd_grid st') = degrees (rd_grid st1) \<and> Nd (rd_grid st') = 0
       else degrees (rd_grid st') = ads buffer 7
            \<and> Nd (rd_grid st') = length (ads buffer 7))"
proof (intro impI, elim conjE)
  assume key: "str_startswith buffer ''degree:''"
    and last: "\<forall>l \<in> set post. \<not> str_startswith l ''degree:''"
  have "\<exists>st2 w2. grid_line ads als buffer st1 w1 = Ok st2 w2
          \<and> (degrees (rd_grid st'), Nd (rd_grid st')) = (degrees (rd_grid st2), Nd (rd_grid st2))"
  proof (rule grid_lines_last [where f = "\<lambda>g. (degrees g, Nd g)", OF _ assms last])
    fix l s v s' v'
    assume "\<not> str_startswith l ''degree:''" and "grid_line ads als l s v = Ok s' v'"
    then show "(degrees (rd_grid s'), Nd (rd_grid s')) = (degrees (rd_grid s), Nd (rd_grid s))"
      by (rule grid_line_degree_frame)
  qed
  then obtain st2 w2 where "grid_line ads als buffer st1 w1 = Ok st2 w2"
    and "(degrees (rd_grid st'), Nd (rd_grid st')) = (degrees (rd_grid st2), Nd (rd_grid st2))"
    by blast
  with grid_line_degree [OF key, of ads als st1 w1]
  show "(if kerneltype (rd_grid st1) \<noteq> K_POLY
       then degrees (rd_grid st') = degrees (rd_grid st1) \<and> Nd (rd_grid st') = 0
       else degrees (rd_grid st') = ads buffer 7
            \<and> Nd (rd_grid st') = length (ads buffer 7))"
    by (auto split: if_splits)
qed

lemma long_to_int_in_range:
  "- (2 ^ 31) \<le> v \<Longrightarrow> v < 2 ^ 31 \<Longrightarrow> long_to_int v = v"
  by (simp add: long_to_int_def)

text \<open>
  Claim C10, as amended. Let \<open>buffer\<close> be the last line of the grid file that starts with
  one of the keys \<^verbatim>\<open>p:\<close>, \<^verbatim>\<open>lambda:\<close>, \<^verbatim>\<open>kappa:\<close>, \<^verbatim>\<open>epsilon:\<close>, \<^verbatim>\<open>weight:\<close>, \<^verbatim>\<open>gamma:\<close>,
  \<^verbatim>\<open>coef:\<close>, \<^verbatim>\<open>degree:\<close>, and let the file be read to its end. For the first five keys the
  grid holds the values and the count parsed from that line, whatever earlier lines with
  the key stored (the weights narrowed from \<^verbatim>\<open>long\<close> to \<^verbatim>\<open>int\<close>, which keeps every value in
  the range of \<^verbatim>\<open>int\<close>). For the three kernel parameters this holds when the parameter
  applies to the kernel that is set when the line is read; when it does not apply, the
  count is zero and the array is the one that earlier lines left.
\<close>

theorem last_line_wins:
  assumes "grid_lines ads als (pre @ buffer # post) st w = Ok st' w'"
    and "grid_lines ads als pre st w = Ok st1 w1"
  shows "(str_startswith buffer ''p:'' \<and> (\<forall>l \<in> set post. \<not> str_startswith l ''p:'') \<longrightarrow>
      ps (rd_grid st') = ads buffer 2
      \<and> Np (rd_grid st') = length (ads buffer 2))
   \<and> (str_startswith buffer ''lambda:'' \<and> (\<forall>l \<in> set post. \<not> str_startswith l ''lambda:'') \<longrightarrow>
      lambdas (rd_grid st') = ads buffer 7
      \<and> Nl (rd_grid st') = length (ads buffer 7))
   \<and> (str_startswith buffer ''kappa:'' \<and> (\<forall>l \<in> set post. \<not> str_startswith l ''kappa:'') \<longrightarrow>
      kappas (rd_grid st') = ads buffer 6
      \<and> Nk (rd_grid st') = length (ads buffer 6))
   \<and> (str_startswith buffer ''epsilon:'' \<and> (\<forall>l \<in> set post. \<not> str_startswith l ''epsilon:'') \<longrightarrow>
      epsilons (rd_grid st') = ads buffer 8
      \<and> Ne (rd_grid st') = length (ads buffer 8))
   \<and> (str_startswith buffer ''weight:'' \<and> (\<forall>l \<in> set post. \<not> str_startswith l ''weight:'') \<longrightarrow>
      weight_idxs (rd_grid st') = map long_to_int (als buffer 7)
      \<and> Nw (rd_grid st') = length (als buffer 7))
   \<and> (str_startswith buffer ''gamma:'' \<and> (\<forall>l \<in> set post. \<not> str_startswith l ''gamma:'') \<longrightarrow>
      (if kerneltype (rd_grid st1) = K_LINEAR
       then gammas (rd_grid st') = gammas (rd_grid st1) \<and> Ng (rd_grid st') = 0
       else gammas (rd_grid st') = ads buffer 6
            \<and> Ng (rd_grid st') = length (ads buffer 6)))
   \<and> (str_startswith buffer ''coef:'' \<and> (\<forall>l \<in> set post. \<not> str_startswith l ''coef:'') \<longrightarrow>
      (if kerneltype (rd_grid st1) = K_LINEAR \<or> kerneltype (rd_grid st1) = K_RBF
       then coefs (rd_grid st') = coefs (rd_grid st1) \<and> Nc (rd_grid st') = 0
       else coefs (rd_grid st') = ads buffer 5
            \<and> Nc (rd_grid st') = length (ads buffer 5)))
   \<and> (str_startswith buffer ''degree:'' \<and> (\<forall>l \<in> set post. \<not> str_startswith l ''degree:'') \<longrightarrow>
      (if kerneltype (rd_grid st1) \<noteq> K_POLY
       then degrees (rd_grid st') = degrees (rd_grid st1) \<and> Nd (rd_grid st') = 0
       else degrees (rd_grid st') = ads buffer 7
            \<and> Nd (rd_grid st') = length (ads buffer 7)))
   \<and> (\<forall>v \<in> set (als buffer 7). - (2 ^ 31) \<le> v \<and> v < 2 ^ 31 \<longrightarrow> long_to_int v = v)"
  using last_p_line [OF assms] last_lambda_line [OF assms] last_kappa_line [OF assms] last_epsilon_line [OF assms] last_weight_line [OF assms] last_gamma_line [OF assms] last_coef_line [OF assms] last_degree_line [OF assms]
    long_to_int_in_range
  by blast

text \<open>
  Claim C10 as it is stated fails for the kernel parameters. The second \<^verbatim>\<open>gamma:\<close> line
  of this file, with the values 3, 4, 5, is read when the kernel is the linear one: the grid
  ends with the count zero and the array of the first \<^verbatim>\<open>gamma:\<close> line.
\<close>

theorem last_line_counterexample:
  "str_startswith (stale_gamma_lines ! 3) ''gamma:''
   \<and> decimal_doubles_str (stale_gamma_lines ! 3) 6 = [3, 4, 5]
   \<and> decimal_grid_lines stale_gamma_lines =
       Ok (start_reader\<lparr>rd_grid := example_grid\<lparr>kerneltype := K_LINEAR, gammas := [1, 2],
                                                Ng := 0\<rparr>\<rparr>)
         (fprintf STDERR Gamma_Ignored start_world)"
proof -
  have "decimal_doubles_str (stale_gamma_lines ! 3) 6 = [3, 4, 5]" by code_simp
  moreover have "str_startswith (stale_gamma_lines ! 3) ''gamma:''"
    by (simp add: stale_gamma_lines_def)
  moreover have "decimal_grid_lines stale_gamma_lines =
      Ok (start_reader\<lparr>rd_grid := example_grid\<lparr>kerneltype := K_LINEAR, gammas := [1, 2],
                                               Ng := 0\<rparr>\<rparr>)
        (fprintf STDERR Gamma_Ignored start_world)"
    by code_simp
  ultimately show ?thesis by simp
qed

text \<open>
  Each key on a file that holds it twice, with the polynomial kernel, to which every
  kernel parameter applies: the values 2 and 3 of the second line are in the grid. On the
  file above, the array of the first \<^verbatim>\<open>gamma:\<close> line stays, with the count zero.
\<close>

theorem last_line_wins_witness:
  "(case decimal_grid_lines (key_lines ''p:'') of
        Exit status w' \<Rightarrow> False
      | Ok st' w' \<Rightarrow> ps (rd_grid st') = [2, 3] \<and> Np (rd_grid st') = 2)
   \<and> (case decimal_grid_lines (key_lines ''lambda:'') of
        Exit status w' \<Rightarrow> False
      | Ok st' w' \<Rightarrow> lambdas (rd_grid st') = [2, 3] \<and> Nl (rd_grid st') = 2)
   \<and> (case decimal_grid_lines (key_lines ''kappa:'') of
        Exit status w' \<Rightarrow> False
      | Ok st' w' \<Rightarrow> kappas (rd_grid st') = [2, 3] \<and> Nk (rd_grid st') = 2)
   \<and> (case decimal_grid_lines (key_lines ''epsilon:'') of
        Exit status w' \<Rightarrow> False
      | Ok st' w' \<Rightarrow> epsilons (rd_grid st') = [2, 3] \<and> Ne (rd_grid st') = 2)
   \<and> (case decimal_grid_lines (key_lines ''weight:'') of
        Exit status w' \<Rightarrow> False
      | Ok st' w' \<Rightarrow> weight_idxs (rd_grid st') = [2, 3] \<and> Nw (rd_grid st') = 2)
   \<and> (case decimal_grid_lines (key_lines ''gamma:'') of
        Exit status w' \<Rightarrow> False
      | Ok st' w' \<Rightarrow> gammas (rd_grid st') = [2, 3] \<and> Ng (rd_grid st') = 2)
   \<and> (case decimal_grid_lines (key_lines ''coef:'') of
        Exit status w' \<Rightarrow> False
      | Ok st' w' \<Rightarrow> coefs (rd_grid st') = [2, 3] \<and> Nc (rd_grid st') = 2)
   \<and> (case decimal_grid_lines (key_lines ''degree:'') of
        Exit status w' \<Rightarrow> False
      | Ok st' w' \<Rightarrow> degrees (rd_grid st') = [2, 3] \<and> Nd (rd_grid st') = 2)
   \<and> (case decimal_grid_lines stale_gamma_lines of
        Exit status w' \<Rightarrow> False
      | Ok st' w' \<Rightarrow> gammas (rd_grid st') = [1, 2] \<and> Ng (rd_grid st') = 0)"
proof -
  have p: "case decimal_grid_lines (key_lines ''p:'') of
        Exit status w' \<Rightarrow> False
      | Ok st' w' \<Rightarrow> ps (rd_grid st') = [2, 3] \<and> Np (rd_grid st') = 2"
  proof -
    let ?st' = "start_reader\<lparr>rd_grid := example_grid\<lparr>kerneltype := K_POLY, ps := [2, 3],
                                                     Np := 2, folds := 5\<rparr>\<rparr>"
    let ?st1 = "start_reader\<lparr>rd_grid := example_grid\<lparr>kerneltype := K_POLY, ps := [1],
                                                     Np := 1\<rparr>\<rparr>"
    have run: "grid_lines decimal_doubles_str decimal_longs_str
                 ([''kernel: POLY'' @ newline, ''p: 1'' @ newline] @ (''p: 2 3'' @ newline)
                    # [''folds: 5'' @ newline]) start_reader start_world = Ok ?st' start_world"
      by code_simp
    have pre: "grid_lines decimal_doubles_str decimal_longs_str
                 [''kernel: POLY'' @ newline, ''p: 1'' @ newline] start_reader start_world
               = Ok ?st1 start_world"
      by code_simp
    have tok: "decimal_doubles_str (''p: 2 3'' @ newline) 2 = [2, 3]" by code_simp
    have all: "decimal_grid_lines (key_lines ''p:'') = Ok ?st' start_world"
      using run by (simp add: decimal_grid_lines_def key_lines_def)
    from last_line_wins [OF run pre] tok
    have "ps (rd_grid ?st') = [2, 3] \<and> Np (rd_grid ?st') = 2"
      by (simp add: long_to_int_def)
    with all show ?thesis by simp
  qed

  have lambda: "case decimal_grid_lines (key_lines ''lambda:'') of
        Exit status w' \<Rightarrow> False
      | Ok st' w' \<Rightarrow> lambdas (rd_grid st') = [2, 3] \<and> Nl (rd_grid st') = 2"
  proof -
    let ?st' = "start_reader\<lparr>rd_grid := example_grid\<lparr>kerneltype := K_POLY, lambdas := [2, 3],
                                                     Nl := 2, folds := 5\<rparr>\<rparr>"
    let ?st1 = "start_reader\<lparr>rd_grid := example_grid\<lparr>kerneltype := K_POLY, lambdas := [1],
                                                     Nl := 1\<rparr>\<rparr>"
    have run: "grid_lines decimal_doubles_str decimal_longs_str
                 ([''kernel: POLY'' @ newline, ''lambda: 1'' @ newline] @ (''lambda: 2 3'' @ newline)
                    # [''folds: 5'' @ newline]) start_reader start_world = Ok ?st' start_world"
      by code_simp
    have pre: "grid_lines decimal_doubles_str decimal_longs_str
                 [''kernel: POLY'' @ newline, ''lambda: 1'' @ newline] start_reader start_world
               = Ok ?st1 start_world"
      by code_simp
    have tok: "decimal_doubles_str (''lambda: 2 3'' @ newline) 7 = [2, 3]" by code_simp
    have all: "decimal_grid_lines (key_lines ''lambda:'') = Ok ?st' start_world"
      using run by (simp add: decimal_grid_lines_def key_lines_def)
    from last_line_wins [OF run pre] tok
    have "lambdas (rd_grid ?st') = [2, 3] \<and> Nl (rd_grid ?st') = 2"
      by (simp add: long_to_int_def)
    with all show ?thesis by simp
  qed

  have kappa: "case decimal_grid_lines (key_lines ''kappa:'') of
        Exit status w' \<Rightarrow> False
      | Ok st' w' \<Rightarrow> kappas (rd_grid st') = [2, 3] \<and> Nk (rd_grid st') = 2"
  proof -
    let ?st' = "start_reader\<lparr>rd_grid := example_grid\<lparr>kerneltype := K_POLY, kappas := [2, 3],
                                                     Nk := 2, folds := 5\<rparr>\<rparr>"
    let ?st1 = "start_reader\<lparr>rd_grid := example_grid\<lparr>kerneltype := K_POLY, kappas := [1],
                                                     Nk := 1\<rparr>\<rparr>"
    have run: "grid_lines decimal_doubles_str decimal_longs_str
                 ([''kernel: POLY'' @ newline, ''kappa: 1'' @ newline] @ (''kappa: 2 3'' @ newline)
                    # [''folds: 5'' @ newline]) start_reader start_world = Ok ?st' start_world"
      by code_simp
    have pre: "grid_lines decimal_doubles_str decimal_longs_str
                 [''kernel: POLY'' @ newline, ''kappa: 1'' @ newline] start_reader start_world
               = Ok ?st1 start_world"
      by code_simp
    have tok: "decimal_doubles_str (''kappa: 2 3'' @ newline) 6 = [2, 3]" by code_simp
    have all: "decimal_grid_lines (key_lines ''kappa:'') = Ok ?st' start_world"
      using run by (simp add: decimal_grid_lines_def key_lines_def)
    from last_line_wins [OF run pre] tok
    have "kappas (rd_grid ?st') = [2, 3] \<and> Nk (rd_grid ?st') = 2"
      by (simp add: long_to_int_def)
    with all show ?thesis by simp
  qed

  have epsilon: "case decimal_grid_lines (key_lines ''epsilon:'') of
        Exit status w' \<Rightarrow> False
      | Ok st' w' \<Rightarrow> epsilons (rd_grid st') = [2, 3] \<and> Ne (rd_grid st') = 2"
  proof -
    let ?st' = "start_reader\<lparr>rd_grid := example_grid\<lparr>kerneltype := K_POLY, epsilons := [2, 3],
                                                     Ne := 2, folds := 5\<rparr>\<rparr>"
    let ?st1 = "start_reader\<lparr>rd_grid := example_grid\<lparr>kerneltype := K_POLY, epsilons := [1],
                                                     Ne := 1\<rparr>\<rparr>"
    have run: "grid_lines decimal_doubles_str decimal_longs_str
                 ([''kernel: POLY'' @ newline, ''epsilon: 1'' @ newline] @ (''epsilon: 2 3'' @ newline)
                    # [''folds: 5'' @ newline]) start_reader start_world = Ok ?st' start_world"
      by code_simp
    have pre: "grid_lines decimal_doubles_str decimal_longs_str
                 [''kernel: POLY'' @ newline, ''epsilon: 1'' @ newline] start_reader start_world
               = Ok ?st1 start_world"
      by code_simp
    have tok: "decimal_doubles_str (''epsilon: 2 3'' @ newline) 8 = [2, 3]" by code_simp
    have all: "decimal_grid_lines (key_lines ''epsilon:'') = Ok ?st' start_world"
      using run by (simp add: decimal_grid_lines_def key_lines_def)
    from last_line_wins [OF run pre] tok
    have "epsilons (rd_grid ?st') = [2, 3] \<and> Ne (rd_grid ?st') = 2"
      by (simp add: long_to_int_def)
    with all show ?thesis by simp
  qed

  have weight: "case decimal_grid_lines (key_lines ''weight:'') of
        Exit status w' \<Rightarrow> False
      | Ok st' w' \<Rightarrow> weight_idxs (rd_grid st') = [2, 3] \<and> Nw (rd_grid st') = 2"
  proof -
    let ?st' = "start_reader\<lparr>rd_grid := example_grid\<lparr>kerneltype := K_POLY, weight_idxs := [2, 3],
                                                     Nw := 2, folds := 5\<rparr>\<rparr>"
    let ?st1 = "start_reader\<lparr>rd_grid := example_grid\<lparr>kerneltype := K_POLY, weight_idxs := [1],
                                                     Nw := 1\<rparr>\<rparr>"
    have run: "grid_lines decimal_doubles_str decimal_longs_str
                 ([''kernel: POLY'' @ newline, ''weight: 1'' @ newline] @ (''weight: 2 3'' @ newline)
                    # [''folds: 5'' @ newline]) start_reader start_world = Ok ?st' start_world"
      by code_simp
    have pre: "grid_lines decimal_doubles_str decimal_longs_str
                 [''kernel: POLY'' @ newline, ''weight: 1'' @ newline] start_reader start_world
               = Ok ?st1 start_world"
      by code_simp
    have tok: "decimal_longs_str (''weight: 2 3'' @ newline) 7 = [2, 3]" by code_simp
    have all: "decimal_grid_lines (key_lines ''weight:'') = Ok ?st' start_world"
      using run by (simp add: decimal_grid_lines_def key_lines_def)
    from last_line_wins [OF run pre] tok
    have "weight_idxs (rd_grid ?st') = [2, 3] \<and> Nw (rd_grid ?st') = 2"
      by (simp add: long_to_int_def)
    with all show ?thesis by simp
  qed

  have gamma: "case decimal_grid_lines (key_lines ''gamma:'') of
        Exit status w' \<Rightarrow> False
      | Ok st' w' \<Rightarrow> gammas (rd_grid st') = [2, 3] \<and> Ng (rd_grid st') = 2"
  proof -
    let ?st' = "start_reader\<lparr>rd_grid := example_grid\<lparr>kerneltype := K_POLY, gammas := [2, 3],
                                                     Ng := 2, folds := 5\<rparr>\<rparr>"
    let ?st1 = "start_reader\<lparr>rd_grid := example_grid\<lparr>kerneltype := K_POLY, gammas := [1],
                                                     Ng := 1\<rparr>\<rparr>"
    have run: "grid_lines decimal_doubles_str decimal_longs_str
                 ([''kernel: POLY'' @ newline, ''gamma: 1'' @ newline] @ (''gamma: 2 3'' @ newline)
                    # [''folds: 5'' @ newline]) start_reader start_world = Ok ?st' start_world"
      by code_simp
    have pre: "grid_lines decimal_doubles_str decimal_longs_str
                 [''kernel: POLY'' @ newline, ''gamma: 1'' @ newline] start_reader start_world
               = Ok ?st1 start_world"
      by code_simp
    have tok: "decimal_doubles_str (''gamma: 2 3'' @ newline) 6 = [2, 3]" by code_simp
    have all: "decimal_grid_lines (key_lines ''gamma:'') = Ok ?st' start_world"
      using run by (simp add: decimal_grid_lines_def key_lines_def)
    from last_line_wins [OF run pre] tok
    have "gammas (rd_grid ?st') = [2, 3] \<and> Ng (rd_grid ?st') = 2"
      by (simp add: long_to_int_def)
    with all show ?thesis by simp
  qed

  have coef: "case decimal_grid_lines (key_lines ''coef:'') of
        Exit status w' \<Rightarrow> False
      | Ok st' w' \<Rightarrow> coefs (rd_grid st') = [2, 3] \<and> Nc (rd_grid st') = 2"
  proof -
    let ?st' = "start_reader\<lparr>rd_grid := example_grid\<lparr>kerneltype := K_POLY, coefs := [2, 3],
                                                     Nc := 2, folds := 5\<rparr>\<rparr>"
    let ?st1 = "start_reader\<lparr>rd_grid := example_grid\<lparr>kerneltype := K_POLY, coefs := [1],
                                                     Nc := 1\<rparr>\<rparr>"
    have run: "grid_lines decimal_doubles_str decimal_longs_str
                 ([''kernel: POLY'' @ newline, ''coef: 1'' @ newline] @ (''coef: 2 3'' @ newline)
                    # [''folds: 5'' @ newline]) start_reader start_world = Ok ?st' start_world"
      by code_simp
    have pre: "grid_lines decimal_doubles_str decimal_longs_str
                 [''kernel: POLY'' @ newline, ''coef: 1'' @ newline] start_reader start_world
               = Ok ?st1 start_world"
      by code_simp
    have tok: "decimal_doubles_str (''coef: 2 3'' @ newline) 5 = [2, 3]" by code_simp
    have all: "decimal_grid_lines (key_lines ''coef:'') = Ok ?st' start_world"
      using run by (simp add: decimal_grid_lines_def key_lines_def)
    from last_line_wins [OF run pre] tok
    have "coefs (rd_grid ?st') = [2, 3] \<and> Nc (rd_grid ?st') = 2"
      by (simp add: long_to_int_def)
    with all show ?thesis by simp
  qed

  have degree: "case decimal_grid_lines (key_lines ''degree:'') of
        Exit status w' \<Rightarrow> False
      | Ok st' w' \<Rightarrow> degrees (rd_grid st') = [2, 3] \<and> Nd (rd_grid st') = 2"
  proof -
    let ?st' = "start_reader\<lparr>rd_grid := example_grid\<lparr>kerneltype := K_POLY, degrees := [2, 3],
                                                     Nd := 2, folds := 5\<rparr>\<rparr>"
    let ?st1 = "start_reader\<lparr>rd_grid := example_grid\<lparr>kerneltype := K_POLY, degrees := [1],
                                                     Nd := 1\<rparr>\<rparr>"
    have run: "grid_lines decimal_doubles_str decimal_longs_str
                 ([''kernel: POLY'' @ newline, ''degree: 1'' @ newline] @ (''degree: 2 3'' @ newline)
                    # [''folds: 5'' @ newline]) start_reader start_world = Ok ?st' start_world"
      by code_simp
    have pre: "grid_lines decimal_doubles_str decimal_longs_str
                 [''kernel: POLY'' @ newline, ''degree: 1'' @ newline] start_reader start_world
               = Ok ?st1 start_world"
      by code_simp
    have tok: "decimal_doubles_str (''degree: 2 3'' @ newline) 7 = [2, 3]" by code_simp
    have all: "decimal_grid_lines (key_lines ''degree:'') = Ok ?st' start_world"
      using run by (simp add: decimal_grid_lines_def key_lines_def)
    from last_line_wins [OF run pre] tok
    have "degrees (rd_grid ?st') = [2, 3] \<and> Nd (rd_grid ?st') = 2"
      by (simp add: long_to_int_def)
    with all show ?thesis by simp
  qed

  have stale: "case decimal_grid_lines stale_gamma_lines of
        Exit status w' \<Rightarrow> False
      | Ok st' w' \<Rightarrow> gammas (rd_grid st') = [1, 2] \<and> Ng (rd_grid st') = 0"
  proof -
    let ?st' = "start_reader\<lparr>rd_grid := example_grid\<lparr>kerneltype := K_LINEAR, gammas := [1, 2],
                                                     Ng := 0\<rparr>\<rparr>"
    let ?st1 = "start_reader\<lparr>rd_grid := example_grid\<lparr>kerneltype := K_LINEAR, gammas := [1, 2],
                                                     Ng := 2\<rparr>\<rparr>"
    have run: "grid_lines decimal_doubles_str decimal_longs_str
                 ([''kernel: RBF'' @ newline, ''gamma: 1 2'' @ newline,
                   ''kernel: LINEAR'' @ newline] @ (''gamma: 3 4 5'' @ newline) # [])
                 start_reader start_world = Ok ?st' (fprintf STDERR Gamma_Ignored start_world)"
      by code_simp
    have pre: "grid_lines decimal_doubles_str decimal_longs_str
                 [''kernel: RBF'' @ newline, ''gamma: 1 2'' @ newline,
                  ''kernel: LINEAR'' @ newline] start_reader start_world
               = Ok ?st1 start_world"
      by code_simp
    have all: "decimal_grid_lines stale_gamma_lines
                 = Ok ?st' (fprintf STDERR Gamma_Ignored start_world)"
      using run by (simp add: decimal_grid_lines_def stale_gamma_lines_def)
    from last_line_wins [OF run pre]
    have "gammas (rd_grid ?st') = [1, 2] \<and> Ng (rd_grid ?st') = 0"
      by (simp add: start_reader_def)
    with all show ?thesis by simp
  qed
  from p lambda kappa epsilon weight gamma coef degree stale show ?thesis by blast
qed

section \<open>Properties of the main program\<close>

lemma main_grid_exit:
  assumes "\<not> help_requested e argv"
    and "parse_command_line (atoi e) (now e) argv w = Ok (sd, input, po) w1"
    and "read_grid_from_file (fopen e) (all_doubles_str e) (all_longs_str e) (stack e) input
           (gensvm_init_grid e) (note Reading_Grid_File w1) = Exit status w2"
  shows "main e argv w = (status, initial_locals e, w2)"
  using assms by (simp add: main_def help_requested_def)

lemma parse_kernel_str_unknown:
  "\<not> known_kernel_ending buffer \<Longrightarrow>
     parse_kernel_str buffer w = Exit EXIT_FAILURE (fprintf STDERR (Unknown_Kernel buffer) w)"
  by (simp add: parse_kernel_str_def known_kernel_ending_def)

lemma read_grid_unknown_kernel:
  assumes "files input = Some (pre @ buffer # post)"
    and "grid_lines ads als pre \<lparr>rd_grid = g\<lparr>traintype := CV\<rparr>, train_filename = fst stk,
           test_filename = snd stk\<rparr> w = Ok st1 w1"
    and "str_startswith buffer ''kernel:''" and "\<not> known_kernel_ending buffer"
  shows "read_grid_from_file files ads als stk input g w =
           Exit EXIT_FAILURE (fprintf STDERR (Unknown_Kernel buffer) w1)"
  using assms
  by (simp add: read_grid_from_file_def grid_lines_append grid_line_kernel
      parse_kernel_str_unknown)

text \<open>
  What the code does on a command line that gets past the help test and the option
  parser: a grid file that cannot be opened, and a \<^verbatim>\<open>kernel:\<close> line in which
  \<^verbatim>\<open>parse_kernel_str\<close> finds none of its four endings (the lines before it being read
  without an exit), each end the process at once with the failure status, after a message
  on the standard error stream; the variables of \<^verbatim>\<open>main\<close> are still the initial ones,
  and the queue holds no task.
\<close>

lemma grid_errors_end_the_run:
  assumes "\<not> help_requested e argv"
    and "parse_command_line (atoi e) (now e) argv w = Ok (sd, input, po) w1"
  shows "(fopen e input = None \<longrightarrow>
            main e argv w =
              (EXIT_FAILURE, initial_locals e,
               fprintf STDERR (Grid_Open_Error input) (note Reading_Grid_File w1)))
         \<and> (fopen e input = Some (pre @ buffer # post)
              \<and> grid_lines (all_doubles_str e) (all_longs_str e) pre (reader_start e)
                    (note Reading_Grid_File w1) = Ok st1 w2
              \<and> str_startswith buffer ''kernel:'' \<and> \<not> known_kernel_ending buffer \<longrightarrow>
            main e argv w =
              (EXIT_FAILURE, initial_locals e, fprintf STDERR (Unknown_Kernel buffer) w2))
         \<and> tasks (queue (initial_locals e)) = []"
proof -
  have c1: "fopen e input = None \<longrightarrow>
            main e argv w =
              (EXIT_FAILURE, initial_locals e,
               fprintf STDERR (Grid_Open_Error input) (note Reading_Grid_File w1))"
    using main_grid_exit [OF assms] by (simp add: read_grid_from_file_def)
  have c2: "fopen e input = Some (pre @ buffer # post)
              \<and> grid_lines (all_doubles_str e) (all_longs_str e) pre (reader_start e)
                    (note Reading_Grid_File w1) = Ok st1 w2
              \<and> str_startswith buffer ''kernel:'' \<and> \<not> known_kernel_ending buffer \<longrightarrow>
            main e argv w =
              (EXIT_FAILURE, initial_locals e, fprintf STDERR (Unknown_Kernel buffer) w2)"
    using main_grid_exit [OF assms] read_grid_unknown_kernel [where files = "fopen e"]
    by (simp add: reader_start_def)
  have c3: "tasks (queue (initial_locals e)) = []"
    by (simp add: initial_locals_def gensvm_init_queue_def)
  from c1 c2 c3 show ?thesis by blast
qed



lemma grid_errors_end_the_run_examples:
  "main example_env [''GenSVMgrid'', ''none.grid''] start_world =
     (EXIT_FAILURE, initial_locals example_env,
      loud_world\<lparr>written := [(STDOUT, Reading_Grid_File),
                              (STDERR, Grid_Open_Error ''none.grid'')]\<rparr>)
   \<and> main example_env [''GenSVMgrid'', ''kernel.grid''] start_world =
       (EXIT_FAILURE, initial_locals example_env,
        loud_world\<lparr>written := [(STDOUT, Reading_Grid_File),
                                (STDERR, Unknown_Kernel (''kernel: GAUSS'' @ newline))]\<rparr>)
   \<and> tasks (queue (initial_locals example_env)) = []"
proof -
  let ?st1 = "(reader_start example_env)
                \<lparr>rd_grid := (rd_grid (reader_start example_env))
                              \<lparr>train_data_file := Some ''dense.txt''\<rparr>,
                 train_filename := ''dense.txt''\<rparr>"
  have a1: "\<not> help_requested example_env [''GenSVMgrid'', ''none.grid'']" by code_simp
  have a2: "\<not> help_requested example_env [''GenSVMgrid'', ''kernel.grid'']" by code_simp
  have c1: "parse_command_line (atoi example_env) (now example_env)
              [''GenSVMgrid'', ''none.grid''] start_world = Ok (0, ''none.grid'', None) loud_world"
    by code_simp
  have c2: "parse_command_line (atoi example_env) (now example_env)
              [''GenSVMgrid'', ''kernel.grid''] start_world
            = Ok (0, ''kernel.grid'', None) loud_world"
    by code_simp
  have f1: "fopen example_env ''none.grid'' = None" by code_simp
  have f2: "fopen example_env ''kernel.grid'' =
              Some ([''train: dense.txt'' @ newline] @ (''kernel: GAUSS'' @ newline)
                      # [''p: 1 2'' @ newline])"
    by code_simp
  have g2: "grid_lines (all_doubles_str example_env) (all_longs_str example_env)
              [''train: dense.txt'' @ newline] (reader_start example_env)
              (note Reading_Grid_File loud_world) = Ok ?st1 (note Reading_Grid_File loud_world)"
    by code_simp
  have k2: "str_startswith (''kernel: GAUSS'' @ newline) ''kernel:''" by simp
  have n2: "\<not> known_kernel_ending (''kernel: GAUSS'' @ newline)" by code_simp
  have w1: "fprintf STDERR (Grid_Open_Error ''none.grid'') (note Reading_Grid_File loud_world)
            = loud_world\<lparr>written := [(STDOUT, Reading_Grid_File),
                                      (STDERR, Grid_Open_Error ''none.grid'')]\<rparr>"
    by code_simp
  have w2: "fprintf STDERR (Unknown_Kernel (''kernel: GAUSS'' @ newline))
              (note Reading_Grid_File loud_world)
            = loud_world\<lparr>written := [(STDOUT, Reading_Grid_File),
                                      (STDERR, Unknown_Kernel (''kernel: GAUSS'' @ newline))]\<rparr>"
    by code_simp
  from grid_errors_end_the_run [OF a1 c1] f1 w1
  have r1: "main example_env [''GenSVMgrid'', ''none.grid''] start_world =
     (EXIT_FAILURE, initial_locals example_env,
      loud_world\<lparr>written := [(STDOUT, Reading_Grid_File),
                              (STDERR, Grid_Open_Error ''none.grid'')]\<rparr>)"
    by simp
  from grid_errors_end_the_run [OF a2 c2, of "[''train: dense.txt'' @ newline]"
      "''kernel: GAUSS'' @ newline" "[''p: 1 2'' @ newline]" ?st1
      "note Reading_Grid_File loud_world"] f2 g2 k2 n2 w2
  have r2: "main example_env [''GenSVMgrid'', ''kernel.grid''] start_world =
       (EXIT_FAILURE, initial_locals example_env,
        loud_world\<lparr>written := [(STDOUT, Reading_Grid_File),
                                (STDERR, Unknown_Kernel (''kernel: GAUSS'' @ newline))]\<rparr>)"
    by simp
  from grid_errors_end_the_run [OF a1 c1] have r3: "tasks (queue (initial_locals example_env)) = []"
    by simp
  from r1 r2 r3 show ?thesis by blast
qed

text \<open>
  Claim C8 fails on the code for the kernel line. The kernel is looked for at the end of
  the line only, so a token that is none of \<^verbatim>\<open>LINEAR\<close>, \<^verbatim>\<open>POLY\<close>, \<^verbatim>\<open>RBF\<close>, \<^verbatim>\<open>SIGMOID\<close> but
  ends like one of them is not rejected. The token \<^verbatim>\<open>NONLINEAR\<close> selects the linear
  kernel without a message; the run creates and trains its tasks and returns 0.
\<close>

theorem unknown_kernel_accepted:
  "sscanf_word 7 (''kernel: NONLINEAR'' @ newline) [] = ''NONLINEAR''
   \<and> ''NONLINEAR'' \<notin> set [''LINEAR'', ''POLY'', ''RBF'', ''SIGMOID'']
   \<and> parse_kernel_str (''kernel: NONLINEAR'' @ newline) start_world = Ok K_LINEAR start_world
   \<and> main example_env [''GenSVMgrid'', ''nonlinear.grid''] start_world =
       (0,
        \<lparr>best_ID = 1, train_data = dense_example, test_data = None,
           queue = \<lparr>tasks = [\<lparr>ID = 0, performance = 50\<rparr>, \<lparr>ID = 1, performance = 51\<rparr>]\<rparr>\<rparr>,
        loud_world\<lparr>written := [(STDOUT, Reading_Grid_File),
                                (STDOUT, Reading_Data (Some ''dense.txt'')),
                                (STDOUT, Creating_Queue), (STDOUT, Starting_Training),
                                (STDOUT, Training_Finished), (STDOUT, Done)]\<rparr>)"
  by code_simp

text \<open>
  Claim C3 fails on the code. With \<^verbatim>\<open>-q\<close> both streams are null, and the messages that go
  through \<^verbatim>\<open>err\<close> are suppressed (third run: the labels of \<^verbatim>\<open>gaps.txt\<close> are rejected
  and nothing is written). The grid file reader writes to \<^verbatim>\<open>stderr\<close> directly: the
  message for a line without a known key (first run) and the one for a grid file that
  cannot be opened (second run) are written in quiet mode.
\<close>

theorem quiet_mode_leak:
  "snd (snd (main example_env [''GenSVMgrid'', ''-q'', ''typo.grid''] loud_world))
     = start_world\<lparr>written := [(STDERR, No_Parameters (''gama: 1'' @ newline))]\<rparr>
   \<and> main example_env [''GenSVMgrid'', ''-q'', ''none.grid''] loud_world
     = (EXIT_FAILURE, initial_locals example_env,
        start_world\<lparr>written := [(STDERR, Grid_Open_Error ''none.grid'')]\<rparr>)
   \<and> snd (snd (main example_env [''GenSVMgrid'', ''-q'', ''gaps.grid''] loud_world))
     = start_world"
  by code_simp

lemma main_validate:
  assumes "\<not> help_requested e argv"
    and "parse_command_line (atoi e) (now e) argv w = Ok (sd, input, po) w1"
    and "read_grid_from_file (fopen e) (all_doubles_str e) (all_longs_str e) (stack e) input
           (gensvm_init_grid e) (note Reading_Grid_File w1) = Ok g w2"
    and "read_data e (gensvm_check_argv e argv ''-x'') (gensvm_init_data e) (train_data_file g)
           = Some train"
    and "test_loaded e argv g test"
  shows "main e argv w =
           validate e argv sd po g ((initial_locals e)\<lparr>train_data := train, test_data := test\<rparr>)
             (note (Reading_Data (train_data_file g)) w2)"
  using assms
  by (auto simp: main_def load_def test_loaded_def Let_def split: option.splits)

lemma search_status: "fst (search e argv sd po g st w) = 0"
  by (simp add: search_def Let_def split: prod.split)

text \<open>
  Claim C6. On a run that gets as far as the check of the labels (the command line and
  the grid file are read, and the data files too), training labels that are not the
  numbers from 1 up to the number of classes end the process with the failure status,
  after a message through \<^verbatim>\<open>err\<close>, with the queue still without any task. With contiguous
  labels the run goes on to the search, and \<^verbatim>\<open>main\<close> returns 0. The labels 1, 2, 4 are
  rejected and the labels 1, 2, 3 are accepted.
\<close>

theorem label_validation:
  assumes "\<not> help_requested e argv"
    and "parse_command_line (atoi e) (now e) argv w = Ok (sd, input, po) w1"
    and "read_grid_from_file (fopen e) (all_doubles_str e) (all_longs_str e) (stack e) input
           (gensvm_init_grid e) (note Reading_Grid_File w1) = Ok g w2"
    and "read_data e (gensvm_check_argv e argv ''-x'') (gensvm_init_data e) (train_data_file g)
           = Some train"
    and "test_loaded e argv g test"
    and "st = (initial_locals e)\<lparr>train_data := train, test_data := test\<rparr>"
    and "w3 = note (Reading_Data (train_data_file g)) w2"
  shows "(\<not> gensvm_check_outcome_contiguous train \<longrightarrow>
            main e argv w = (EXIT_FAILURE, st, err Labels_Not_Contiguous w3)
            \<and> tasks (queue st) = [])
         \<and> (gensvm_check_outcome_contiguous train \<longrightarrow>
              main e argv w =
                search e argv sd po g
                  (st\<lparr>train_data :=
                        fst (densify_train (gensvm_sparse_to_dense e) (kerneltype g) train w3)\<rparr>)
                  (snd (densify_train (gensvm_sparse_to_dense e) (kerneltype g) train w3))
              \<and> fst (main e argv w) = 0)
         \<and> \<not> gensvm_check_outcome_contiguous (d\<lparr>data_y := Some [1, 2, 4]\<rparr>)
         \<and> gensvm_check_outcome_contiguous (d\<lparr>data_y := Some [1, 2, 3]\<rparr>)"
proof -
  note m = main_validate [OF assms(1-5)]
  have c1: "\<not> gensvm_check_outcome_contiguous train \<longrightarrow>
            main e argv w = (EXIT_FAILURE, st, err Labels_Not_Contiguous w3)
            \<and> tasks (queue st) = []"
    using m assms(6,7)
    by (simp add: validate_def initial_locals_def gensvm_init_queue_def)
  have c2: "gensvm_check_outcome_contiguous train \<longrightarrow>
              main e argv w =
                search e argv sd po g
                  (st\<lparr>train_data :=
                        fst (densify_train (gensvm_sparse_to_dense e) (kerneltype g) train w3)\<rparr>)
                  (snd (densify_train (gensvm_sparse_to_dense e) (kerneltype g) train w3))
              \<and> fst (main e argv w) = 0"
    using m assms(6,7)
    by (simp add: validate_def case_prod_beta search_status)
  have "(4::int) \<in> {1, 2, 4}" and "(4::int) \<notin> {1 .. 3}" by simp_all
  then have "{1, 2, 4} \<noteq> {1 .. 3::int}" by metis
  then have c3: "\<not> gensvm_check_outcome_contiguous (d\<lparr>data_y := Some [1, 2, 4]\<rparr>)"
    by (simp add: gensvm_check_outcome_contiguous_def labels_def)
  have c4: "gensvm_check_outcome_contiguous (d\<lparr>data_y := Some [1, 2, 3]\<rparr>)"
    by (auto simp: gensvm_check_outcome_contiguous_def labels_def)
  from c1 c2 c3 c4 show ?thesis by blast
qed


theorem label_validation_witness:
  "main example_env [''GenSVMgrid'', ''gaps.grid''] start_world =
     (EXIT_FAILURE,
      (initial_locals example_env)
        \<lparr>train_data := \<lparr>Z = Ptr [[1, 0], [0, 1], [1, 1]], RAW = NULL, spZ = NULL,
                         data_y = Some [1, 2, 4], data_n = 3\<rparr>,
         test_data := None\<rparr>,
      loud_world\<lparr>written := [(STDOUT, Reading_Grid_File),
                              (STDOUT, Reading_Data (Some ''gaps.txt'')),
                              (STDERR, Labels_Not_Contiguous)]\<rparr>)
   \<and> fst (main example_env [''GenSVMgrid'', ''dense.grid''] start_world) = 0"
proof -
  let ?gaps = "\<lparr>Z = Ptr [[1, 0], [0, 1], [1, 1]], RAW = NULL, spZ = NULL,
                 data_y = Some [1, 2, 4], data_n = 3\<rparr> :: (dense, sparse) GenData"
  let ?dense = "\<lparr>Z = Ptr [[1, 0], [0, 1], [1, 1]], RAW = NULL, spZ = NULL,
                  data_y = Some [1, 2, 3], data_n = 3\<rparr> :: (dense, sparse) GenData"
  let ?g1 = "example_grid\<lparr>train_data_file := Some ''gaps.txt'', ps := [1, 2], Np := 2\<rparr>"
  let ?g2 = "example_grid\<lparr>train_data_file := Some ''dense.txt'', ps := [1, 2], Np := 2\<rparr>"
  let ?w2 = "note Reading_Grid_File loud_world"
  have a1: "\<not> help_requested example_env [''GenSVMgrid'', ''gaps.grid'']" by code_simp
  have a2: "\<not> help_requested example_env [''GenSVMgrid'', ''dense.grid'']" by code_simp
  have c1: "parse_command_line (atoi example_env) (now example_env)
              [''GenSVMgrid'', ''gaps.grid''] start_world = Ok (0, ''gaps.grid'', None) loud_world"
    by code_simp
  have c2: "parse_command_line (atoi example_env) (now example_env)
              [''GenSVMgrid'', ''dense.grid''] start_world
            = Ok (0, ''dense.grid'', None) loud_world"
    by code_simp
  have r1: "read_grid_from_file (fopen example_env) (all_doubles_str example_env)
              (all_longs_str example_env) (stack example_env) ''gaps.grid''
              (gensvm_init_grid example_env) ?w2 = Ok ?g1 ?w2"
    by code_simp
  have r2: "read_grid_from_file (fopen example_env) (all_doubles_str example_env)
              (all_longs_str example_env) (stack example_env) ''dense.grid''
              (gensvm_init_grid example_env) ?w2 = Ok ?g2 ?w2"
    by code_simp
  have t1: "read_data example_env
              (gensvm_check_argv example_env [''GenSVMgrid'', ''gaps.grid''] ''-x'')
              (gensvm_init_data example_env) (train_data_file ?g1) = Some ?gaps"
    by code_simp
  have t2: "read_data example_env
              (gensvm_check_argv example_env [''GenSVMgrid'', ''dense.grid''] ''-x'')
              (gensvm_init_data example_env) (train_data_file ?g2) = Some ?dense"
    by code_simp
  have l1: "test_loaded example_env [''GenSVMgrid'', ''gaps.grid''] ?g1 None"
    by (simp add: test_loaded_def example_grid_def)
  have l2: "test_loaded example_env [''GenSVMgrid'', ''dense.grid''] ?g2 None"
    by (simp add: test_loaded_def example_grid_def)
  have n1: "\<not> gensvm_check_outcome_contiguous ?gaps" by code_simp
  have n2: "gensvm_check_outcome_contiguous ?dense" by code_simp
  have w: "err Labels_Not_Contiguous (note (Reading_Data (train_data_file ?g1)) ?w2)
           = loud_world\<lparr>written := [(STDOUT, Reading_Grid_File),
                                     (STDOUT, Reading_Data (Some ''gaps.txt'')),
                                     (STDERR, Labels_Not_Contiguous)]\<rparr>"
    by code_simp
  from label_validation [where d = ?gaps, OF a1 c1 r1 t1 l1 refl refl] n1 w
  have m1: "main example_env [''GenSVMgrid'', ''gaps.grid''] start_world =
     (EXIT_FAILURE,
      (initial_locals example_env)\<lparr>train_data := ?gaps, test_data := None\<rparr>,
      loud_world\<lparr>written := [(STDOUT, Reading_Grid_File),
                              (STDOUT, Reading_Data (Some ''gaps.txt'')),
                              (STDERR, Labels_Not_Contiguous)]\<rparr>)"
    by simp
  from label_validation [where d = ?gaps, OF a2 c2 r2 t2 l2 refl refl] n2
  have m2: "fst (main example_env [''GenSVMgrid'', ''dense.grid''] start_world) = 0"
    by blast
  from m1 m2 show ?thesis by blast
qed

lemma search_queue:
  "queue (fst (snd (search e argv sd po g st w))) =
     gensvm_train_queue e sd (gensvm_fill_queue e g (train_data st) (test_data st))"
  by (simp add: search_def final_pipeline_def Let_def split: prod.split option.split)





lemma search_selected:
  "best_ID (fst (snd (search e argv sd po g st w))) =
     select_best (gensvm_consistency_repeats e) g (trained_queue e sd g st) (best_ID st)"
  by (simp add: search_def final_pipeline_def trained_queue_def Let_def
      split: prod.split option.split)

lemma search_trained:
  "queue (fst (snd (search e argv sd po g st w))) = trained_queue e sd g st"
  by (simp add: search_queue trained_queue_def)

lemma search_without_test:
  "test_data st = None \<Longrightarrow>
     search e argv sd po g st w =
       (0, st\<lparr>queue := trained_queue e sd g st,
              best_ID := select_best (gensvm_consistency_repeats e) g
                           (trained_queue e sd g st) (best_ID st)\<rparr>,
        note Done (note Training_Finished (note Starting_Training (note Creating_Queue w))))"
  by (simp add: search_def trained_queue_def Let_def)

lemma search_with_test:
  "test_data st = Some test \<Longrightarrow>
     search e argv sd po g st w =
       (0,
        fst (final_pipeline e argv po test
               (st\<lparr>queue := trained_queue e sd g st,
                    best_ID := select_best (gensvm_consistency_repeats e) g
                                 (trained_queue e sd g st) (best_ID st)\<rparr>)
               (note Training_Finished (note Starting_Training (note Creating_Queue w)))),
        note Done
          (snd (final_pipeline e argv po test
                  (st\<lparr>queue := trained_queue e sd g st,
                       best_ID := select_best (gensvm_consistency_repeats e) g
                                    (trained_queue e sd g st) (best_ID st)\<rparr>)
                  (note Training_Finished (note Starting_Training (note Creating_Queue w))))))"
  by (simp add: search_def trained_queue_def Let_def split: prod.split)

text \<open>
  Claim C2. The two selection modes exclude each other on \<^verbatim>\<open>repeats\<close>. With a positive
  value the identifier of the best task that the run ends with is the one that the
  consistency algorithm returns for the trained queue; with the value zero it is the one
  that the simple scan finds in the trained queue, and the whole remainder of the run
  (status, variables, everything written) is the same whatever the consistency algorithm
  is. The queue the run ends with is the trained queue, and the run is: the selection on
  the trained queue, then the final pipeline with that selection when there is test data.
\<close>

theorem selection_modes:
  "(0 < repeats g \<longrightarrow>
      select_best c g q b = c q (repeats g) (percentile g)
      \<and> best_ID (fst (snd (search e argv sd po g st w))) =
          gensvm_consistency_repeats e (trained_queue e sd g st) (repeats g) (percentile g))
   \<and> (repeats g = 0 \<longrightarrow>
        select_best c g q b = simple_select q b
        \<and> best_ID (fst (snd (search e argv sd po g st w))) =
            simple_select (trained_queue e sd g st) (best_ID st)
        \<and> search (e\<lparr>gensvm_consistency_repeats := c'\<rparr>) argv sd po g st w
            = search e argv sd po g st w)
   \<and> queue (fst (snd (search e argv sd po g st w))) = trained_queue e sd g st
   \<and> (test_data st = None \<longrightarrow>
        search e argv sd po g st w =
          (0, st\<lparr>queue := trained_queue e sd g st,
                 best_ID := select_best (gensvm_consistency_repeats e) g
                              (trained_queue e sd g st) (best_ID st)\<rparr>,
           note Done
             (note Training_Finished (note Starting_Training (note Creating_Queue w)))))
   \<and> (test_data st = Some test \<longrightarrow>
        search e argv sd po g st w =
          (0,
           fst (final_pipeline e argv po test
                  (st\<lparr>queue := trained_queue e sd g st,
                       best_ID := select_best (gensvm_consistency_repeats e) g
                                    (trained_queue e sd g st) (best_ID st)\<rparr>)
                  (note Training_Finished (note Starting_Training (note Creating_Queue w)))),
           note Done
             (snd (final_pipeline e argv po test
                     (st\<lparr>queue := trained_queue e sd g st,
                          best_ID := select_best (gensvm_consistency_repeats e) g
                                       (trained_queue e sd g st) (best_ID st)\<rparr>)
                     (note Training_Finished
                        (note Starting_Training (note Creating_Queue w)))))))"
proof -
  have c1: "0 < repeats g \<longrightarrow>
      select_best c g q b = c q (repeats g) (percentile g)
      \<and> best_ID (fst (snd (search e argv sd po g st w))) =
          gensvm_consistency_repeats e (trained_queue e sd g st) (repeats g) (percentile g)"
    by (simp add: search_selected select_best_def)
  have c2: "repeats g = 0 \<longrightarrow>
        select_best c g q b = simple_select q b
        \<and> best_ID (fst (snd (search e argv sd po g st w))) =
            simple_select (trained_queue e sd g st) (best_ID st)
        \<and> search (e\<lparr>gensvm_consistency_repeats := c'\<rparr>) argv sd po g st w
            = search e argv sd po g st w"
  proof -
    have "search (e\<lparr>gensvm_consistency_repeats := c'\<rparr>) argv sd po g st w
            = search e argv sd po g st w" if "repeats g = 0"
      using that
      by (simp add: select_best_def search_def final_pipeline_consistency Let_def
          split: prod.split option.split)
    then show ?thesis by (simp add: search_selected select_best_def)
  qed
  note c3 = search_trained [of e argv sd po g st w]
  note c4 = search_without_test [of st e argv sd po g w]
  note c5 = search_with_test [of st test e argv sd po g w]
  from c1 c2 c3 c4 c5 show ?thesis by blast
qed


theorem selection_modes_witness:
  "select_best (\<lambda>q r p. 7) (example_grid\<lparr>repeats := 3\<rparr>) score_queue (- 1) = 7
   \<and> select_best (\<lambda>q r p. 7) example_grid score_queue (- 1) = 1
   \<and> trained_queue example_env 0 (example_grid\<lparr>ps := [1, 2], Np := 2\<rparr>)
         ((initial_locals example_env)\<lparr>train_data := dense_example, test_data := None\<rparr>)
       = \<lparr>tasks = [\<lparr>ID = 0, performance = 50\<rparr>, \<lparr>ID = 1, performance = 51\<rparr>]\<rparr>
   \<and> best_ID (fst (snd (search (example_env\<lparr>gensvm_consistency_repeats := (\<lambda>q r p. 7)\<rparr>)
         [''GenSVMgrid'', ''dense.grid''] 0 None
         (example_grid\<lparr>ps := [1, 2], Np := 2, repeats := 3\<rparr>)
         ((initial_locals example_env)\<lparr>train_data := dense_example, test_data := None\<rparr>)
         loud_world))) = 7
   \<and> best_ID (fst (snd (search (example_env\<lparr>gensvm_consistency_repeats := (\<lambda>q r p. 7)\<rparr>)
         [''GenSVMgrid'', ''dense.grid''] 0 None
         (example_grid\<lparr>ps := [1, 2], Np := 2\<rparr>)
         ((initial_locals example_env)\<lparr>train_data := dense_example, test_data := None\<rparr>)
         loud_world))) = 1
   \<and> search (example_env\<lparr>gensvm_consistency_repeats := (\<lambda>q r p. 7)\<rparr>)
        [''GenSVMgrid'', ''dense.grid''] 0 None (example_grid\<lparr>ps := [1, 2], Np := 2\<rparr>)
        ((initial_locals example_env)\<lparr>train_data := dense_example, test_data := None\<rparr>)
        loud_world
      = (0,
         \<lparr>best_ID = 1, train_data = dense_example, test_data = None,
            queue = \<lparr>tasks = [\<lparr>ID = 0, performance = 50\<rparr>, \<lparr>ID = 1, performance = 51\<rparr>]\<rparr>\<rparr>,
         loud_world\<lparr>written := [(STDOUT, Creating_Queue), (STDOUT, Starting_Training),
                                 (STDOUT, Training_Finished), (STDOUT, Done)]\<rparr>)"
proof -
  let ?e7 = "example_env\<lparr>gensvm_consistency_repeats := (\<lambda>q r p. 7)\<rparr>"
  let ?argv = "[''GenSVMgrid'', ''dense.grid'']"
  let ?g0 = "example_grid\<lparr>ps := [1, 2], Np := 2\<rparr>"
  let ?g3 = "example_grid\<lparr>ps := [1, 2], Np := 2, repeats := 3\<rparr>"
  let ?st = "(initial_locals example_env)\<lparr>train_data := dense_example, test_data := None\<rparr>"
  let ?q = "\<lparr>tasks = [\<lparr>ID = 0, performance = 50\<rparr>, \<lparr>ID = 1, performance = 51\<rparr>]\<rparr>
              :: GenTask GenQueue"
  have h0: "repeats ?g0 = 0" by (simp add: example_grid_def)
  have h0': "repeats example_grid = 0" by (simp add: example_grid_def)
  have h3: "0 < repeats ?g3" by simp
  have h3': "0 < repeats (example_grid\<lparr>repeats := 3\<rparr>)" by simp
  have n: "test_data ?st = None" by simp
  have b: "best_ID ?st = - 1" by (simp add: initial_locals_def)
  have tq: "trained_queue example_env 0 ?g0 ?st = ?q" by code_simp
  have tq7: "trained_queue ?e7 0 ?g0 ?st = ?q" by code_simp
  have tq3: "trained_queue ?e7 0 ?g3 ?st = ?q" by code_simp
  have s: "simple_select ?q (- 1) = 1" by code_simp
  have s': "simple_select score_queue (- 1) = 1" by code_simp
  have cr: "gensvm_consistency_repeats ?e7 = (\<lambda>q r p. 7)" by simp
  have fin: "(0::int, ?st\<lparr>queue := ?q, best_ID := 1\<rparr>,
              note Done (note Training_Finished (note Starting_Training
                (note Creating_Queue loud_world))))
             = (0,
         \<lparr>best_ID = 1, train_data = dense_example, test_data = None, queue = ?q\<rparr>,
         loud_world\<lparr>written := [(STDOUT, Creating_Queue), (STDOUT, Starting_Training),
                                 (STDOUT, Training_Finished), (STDOUT, Done)]\<rparr>)"
    by code_simp
  note t3 = selection_modes [where g = ?g3 and e = ?e7 and argv = ?argv and sd = 0
      and po = None and st = ?st and w = loud_world]
  note t0 = selection_modes [where g = ?g0 and e = ?e7 and argv = ?argv and sd = 0
      and po = None and st = ?st and w = loud_world and c = "\<lambda>q r p. 7"]
  from selection_modes [where g = "example_grid\<lparr>repeats := 3\<rparr>" and c = "\<lambda>q r p. 7"
      and q = score_queue and b = "- 1"] h3'
  have r1: "select_best (\<lambda>q r p. 7) (example_grid\<lparr>repeats := 3\<rparr>) score_queue (- 1) = 7"
    by blast
  from selection_modes [where g = example_grid and c = "\<lambda>q r p. 7"
      and q = score_queue and b = "- 1"] h0' s'
  have r2: "select_best (\<lambda>q r p. 7) example_grid score_queue (- 1) = 1"
    by metis
  from t3 h3 have "best_ID (fst (snd (search ?e7 ?argv 0 None ?g3 ?st loud_world))) =
      gensvm_consistency_repeats ?e7 (trained_queue ?e7 0 ?g3 ?st) (repeats ?g3) (percentile ?g3)"
    by blast
  with cr have r3: "best_ID (fst (snd (search ?e7 ?argv 0 None ?g3 ?st loud_world))) = 7"
    by simp
  from t0 h0 have "best_ID (fst (snd (search ?e7 ?argv 0 None ?g0 ?st loud_world))) =
      simple_select (trained_queue ?e7 0 ?g0 ?st) (best_ID ?st)"
    by blast
  with tq7 b s have r4: "best_ID (fst (snd (search ?e7 ?argv 0 None ?g0 ?st loud_world))) = 1"
    by simp
  from t0 n have "search ?e7 ?argv 0 None ?g0 ?st loud_world =
          (0, ?st\<lparr>queue := trained_queue ?e7 0 ?g0 ?st,
                 best_ID := select_best (gensvm_consistency_repeats ?e7) ?g0
                              (trained_queue ?e7 0 ?g0 ?st) (best_ID ?st)\<rparr>,
           note Done
             (note Training_Finished (note Starting_Training (note Creating_Queue loud_world))))"
    by blast
  moreover from t0 h0 have "select_best (gensvm_consistency_repeats ?e7) ?g0 ?q (- 1)
      = simple_select ?q (- 1)"
    by (simp add: select_best_def)
  ultimately have r5: "search ?e7 ?argv 0 None ?g0 ?st loud_world =
      (0,
         \<lparr>best_ID = 1, train_data = dense_example, test_data = None, queue = ?q\<rparr>,
         loud_world\<lparr>written := [(STDOUT, Creating_Queue), (STDOUT, Starting_Training),
                                 (STDOUT, Training_Finished), (STDOUT, Done)]\<rparr>)"
    using tq7 b s fin by simp
  from r1 r2 tq r3 r4 r5 show ?thesis by blast
qed

end
